theory Spec2Isabelle
  imports Complex_Main
begin

section \<open>Data model of the CEO quality-control agent\<close>

text \<open>
  The development embeds \<^verbatim>\<open>src/ceo-quality-control-agent.py\<close>. Python names
  are kept; a leading underscore is dropped because an Isabelle name cannot start with
  one, and the orchestrator's \<^verbatim>\<open>_review_work_item\<close> is called
  \<open>ceo_review_work_item\<close> to keep it apart from the engine's
  \<^verbatim>\<open>review_work_item\<close>.

  Conventions of the model:
  \<^item> The scores of the metrics are modelled as \<open>real\<close>: sums, divisions and comparisons
    are exact. The running mean of the performance records is computed with the rounding of
    Python's floats (section \<open>Arithmetic on doubles\<close>).
  \<^item> Python \<^verbatim>\<open>str\<close> is modelled as \<open>string\<close>; a \<open>char\<close> stands for a code point
    below 256, so the model covers Latin-1 text.
  \<^item> Timestamps (\<^verbatim>\<open>datetime.now()\<close>) are left out of the records.
  \<^item> A Python exception is a value of type \<open>exn\<close>; a method that mutates its work item and
    may raise returns the outcome together with the item as it is at that moment.
\<close>

datatype exn = NameError string | KeyError string | OtherError string

datatype quality_standard = EXCELLENT | GOOD | ACCEPTABLE | NEEDS_IMPROVEMENT | UNACCEPTABLE

datatype work_type_t =
  CODE | DOCUMENTATION | TESTS | ARCHITECTURE | DESIGN | DEPLOYMENT | SECURITY | PERFORMANCE

record quality_metrics =
  code_quality :: real
  test_coverage :: real
  documentation_completeness :: real
  security_score :: real
  performance_score :: real
  architecture_compliance :: real
  overall_score :: real

text \<open>The dataclass defaults: every score starts at 0.0.\<close>

definition default_metrics :: quality_metrics where
  "default_metrics = \<lparr>code_quality = 0, test_coverage = 0, documentation_completeness = 0,
     security_score = 0, performance_score = 0, architecture_compliance = 0,
     overall_score = 0\<rparr>"

text \<open>\<^verbatim>\<open>QualityMetrics.calculate_overall_score\<close>: \<^verbatim>\<open>sum(metrics) / len(metrics)\<close> over the six
  sub-scores, stored in \<^verbatim>\<open>overall_score\<close>.\<close>

definition calculate_overall_score :: "quality_metrics \<Rightarrow> quality_metrics" where
  "calculate_overall_score m =
     m\<lparr>overall_score :=
         sum_list [code_quality m, test_coverage m, documentation_completeness m,
                   security_score m, performance_score m, architecture_compliance m]
         / real (length [code_quality m, test_coverage m, documentation_completeness m,
                   security_score m, performance_score m, architecture_compliance m])\<rparr>"

record quality_issue =
  issue_type :: string
  severity :: string
  description :: string
  issue_file_path :: "string option"
  line_number :: "int option"
  suggested_fix :: "string option"
  auto_fixable :: bool
  agent_responsible :: "string option"

record work_item =
  item_id :: string
  work_type :: work_type_t
  file_path :: string
  agent_name :: string
  project_name :: string
  content :: string
  requirements :: "string list"
  metrics :: quality_metrics
  issues :: "quality_issue list"
  status :: string
  revision_count :: int
  max_revisions :: int

text \<open>A work item as the dataclass constructor builds it from its seven required fields:
  default metrics, no issues, status \<^verbatim>\<open>pending\<close>, no revisions, at most three.\<close>

definition WorkItem ::
  "string \<Rightarrow> work_type_t \<Rightarrow> string \<Rightarrow> string \<Rightarrow> string \<Rightarrow> string \<Rightarrow> string list \<Rightarrow> work_item" where
  "WorkItem i wt fp ag pr c rq =
     \<lparr>item_id = i, work_type = wt, file_path = fp, agent_name = ag, project_name = pr,
      content = c, requirements = rq, metrics = default_metrics, issues = [],
      status = ''pending'', revision_count = 0, max_revisions = 3\<rparr>"

section \<open>Text primitives of Python used by the source\<close>

text \<open>\<^verbatim>\<open>str.isspace\<close> and the regular-expression class \<^verbatim>\<open>\s\<close> on code points below 256.\<close>

definition is_space :: "char \<Rightarrow> bool" where
  "is_space c = (let n = (of_char c :: nat) in
     (9 \<le> n \<and> n \<le> 13) \<or> (28 \<le> n \<and> n \<le> 32) \<or> n = 133 \<or> n = 160)"

text \<open>The class \<^verbatim>\<open>\w\<close>: alphanumeric code points below 256, and the underscore.\<close>

definition is_word :: "char \<Rightarrow> bool" where
  "is_word c = (let n = (of_char c :: nat) in
     (48 \<le> n \<and> n \<le> 57) \<or> (65 \<le> n \<and> n \<le> 90) \<or> n = 95 \<or> (97 \<le> n \<and> n \<le> 122)
     \<or> n = 170 \<or> n = 178 \<or> n = 179 \<or> n = 181 \<or> n = 185 \<or> n = 186
     \<or> (188 \<le> n \<and> n \<le> 190) \<or> (192 \<le> n \<and> n \<le> 214) \<or> (216 \<le> n \<and> n \<le> 246)
     \<or> 248 \<le> n)"

text \<open>\<^verbatim>\<open>str.lower\<close> and \<^verbatim>\<open>str.upper\<close> on one code point. Lower-casing stays below 256;
  upper-casing is modelled on the ASCII letters and on the Latin-1 letters whose capital is
  below 256.\<close>

definition lower_char :: "char \<Rightarrow> char" where
  "lower_char c = (let n = (of_char c :: nat) in
     if (65 \<le> n \<and> n \<le> 90) \<or> (192 \<le> n \<and> n \<le> 214) \<or> (216 \<le> n \<and> n \<le> 222)
     then char_of (n + 32) else c)"

definition upper_char :: "char \<Rightarrow> char" where
  "upper_char c = (let n = (of_char c :: nat) in
     if (97 \<le> n \<and> n \<le> 122) \<or> (224 \<le> n \<and> n \<le> 246) \<or> (248 \<le> n \<and> n \<le> 254)
     then char_of (n - 32) else c)"

definition lower :: "string \<Rightarrow> string" where
  "lower s = map lower_char s"

definition is_cased :: "char \<Rightarrow> bool" where
  "is_cased c = (lower_char c \<noteq> c \<or> upper_char c \<noteq> c)"

text \<open>\<^verbatim>\<open>str.title\<close>: a cased character is upper-cased after an uncased one (or at the start)
  and lower-cased after a cased one.\<close>

fun title_from :: "bool \<Rightarrow> string \<Rightarrow> string" where
  "title_from prev_cased [] = []"
| "title_from prev_cased (c # s) =
     (if is_cased c
      then (if prev_cased then lower_char c else upper_char c) # title_from True s
      else c # title_from False s)"

definition title :: "string \<Rightarrow> string" where
  "title s = title_from False s"

text \<open>\<^verbatim>\<open>s.startswith(p)\<close> and \<^verbatim>\<open>p in s\<close>.\<close>

definition startswith :: "string \<Rightarrow> string \<Rightarrow> bool" where
  "startswith s p = (take (length p) s = p)"

fun contains :: "string \<Rightarrow> string \<Rightarrow> bool" where
  "contains [] p = (p = [])"
| "contains (c # s) p = (startswith (c # s) p \<or> contains s p)"

text \<open>\<^verbatim>\<open>s.split('\n')\<close>: the pieces between newlines, one more than there are newlines.\<close>

fun split_lines :: "string \<Rightarrow> string list" where
  "split_lines [] = [[]]"
| "split_lines (c # s) =
     (if c = CHR 0x0A then [] # split_lines s
      else (case split_lines s of [] \<Rightarrow> [[c]] | l # ls \<Rightarrow> (c # l) # ls))"

text \<open>\<^verbatim>\<open>'\n'.join(lines)\<close>.\<close>

fun join_lines :: "string list \<Rightarrow> string" where
  "join_lines [] = []"
| "join_lines [l] = l"
| "join_lines (l # ls) = l @ CHR 0x0A # join_lines ls"

text \<open>\<^verbatim>\<open>s.lstrip()\<close>, \<^verbatim>\<open>s.strip()\<close> and \<^verbatim>\<open>' ' * n\<close>.\<close>

definition lstrip :: "string \<Rightarrow> string" where
  "lstrip s = dropWhile is_space s"

definition strip :: "string \<Rightarrow> string" where
  "strip s = rev (dropWhile is_space (rev (dropWhile is_space s)))"

definition spaces :: "nat \<Rightarrow> string" where
  "spaces n = replicate n CHR '' ''"

text \<open>\<^verbatim>\<open>len(s.split())\<close>: the number of maximal runs of non-space characters.\<close>

fun count_words :: "bool \<Rightarrow> string \<Rightarrow> nat" where
  "count_words in_word [] = 0"
| "count_words in_word (c # s) =
     (if is_space c then count_words False s
      else (if in_word then 0 else 1) + count_words True s)"

text \<open>\<^verbatim>\<open>str(n)\<close> for a non-negative integer.\<close>

definition digit_char :: "nat \<Rightarrow> char" where
  "digit_char d = char_of (48 + d)"

fun str_nat :: "nat \<Rightarrow> string" where
  "str_nat n = (if n < 10 then [digit_char n] else str_nat (n div 10) @ [digit_char (n mod 10)])"

declare str_nat.simps [simp del]

section \<open>The regular expressions of the source\<close>

text \<open>
  The source calls Python's \<^verbatim>\<open>re\<close> with patterns built from literal characters, the
  classes \<^verbatim>\<open>\s\<close>, \<^verbatim>\<open>\w\<close>, \<^verbatim>\<open>.\<close> and bracket sets, the quantifiers \<^verbatim>\<open>*\<close>, \<^verbatim>\<open>+\<close> and
  \<^verbatim>\<open>*?\<close> on one character class, the word boundary \<^verbatim>\<open>\b\<close> and unnested groups. A pattern
  is a list of such items; each pattern below is written next to its source text.
  \<open>Mark\<close> stands for an opening or closing parenthesis of a group.
\<close>

datatype atom = Lit char | Dot | Space | Word | OneOf "char list" | NoneOf "char list"
  | Range char char

datatype item = One atom | Star atom | Plus atom | Lazy atom | Boundary | Mark

type_synonym pattern = "item list"

definition lit :: "string \<Rightarrow> pattern" where
  "lit s = map (\<lambda>c. One (Lit c)) s"

text \<open>Whether one character matches an atom. \<open>ic\<close> is \<^verbatim>\<open>re.IGNORECASE\<close> and \<open>da\<close> is
  \<^verbatim>\<open>re.DOTALL\<close>: without it the dot excludes the newline.\<close>

fun atom_ok :: "bool \<Rightarrow> bool \<Rightarrow> atom \<Rightarrow> char \<Rightarrow> bool" where
  "atom_ok ic da (Lit x) c = (if ic then lower_char x = lower_char c else x = c)"
| "atom_ok ic da Dot c = (da \<or> c \<noteq> CHR 0x0A)"
| "atom_ok ic da Space c = is_space c"
| "atom_ok ic da Word c = is_word c"
| "atom_ok ic da (OneOf xs) c =
     (if ic then lower_char c \<in> set (map lower_char xs) else c \<in> set xs)"
| "atom_ok ic da (NoneOf xs) c =
     (if ic then lower_char c \<notin> set (map lower_char xs) else c \<notin> set xs)"
| "atom_ok ic da (Range a b) c =
     ((of_char a :: nat) \<le> of_char c \<and> (of_char c :: nat) \<le> of_char b)"

definition word_opt :: "char option \<Rightarrow> bool" where
  "word_opt p = (case p of None \<Rightarrow> False | Some c \<Rightarrow> is_word c)"

definition head_opt :: "string \<Rightarrow> char option" where
  "head_opt s = (case s of [] \<Rightarrow> None | c # _ \<Rightarrow> Some c)"

text \<open>
  The backtracking matcher, anchored at the start of \<open>s\<close>; \<open>p\<close> is the character before
  \<open>s\<close> (for \<^verbatim>\<open>\b\<close>). Alternatives are tried in the order of Python's engine: a greedy
  quantifier takes one more character first, a lazy one tries the rest of the pattern first.
  The result is the character before the end of the match, the text after the match, and
  the text that remained at each group parenthesis, in pattern order.
\<close>

fun rx :: "bool \<Rightarrow> bool \<Rightarrow> pattern \<Rightarrow> char option \<Rightarrow> string
    \<Rightarrow> (char option \<times> string \<times> string list) option" where
  "rx ic da [] p s = Some (p, s, [])"
| "rx ic da (One a # r) p [] = None"
| "rx ic da (One a # r) p (c # s) = (if atom_ok ic da a c then rx ic da r (Some c) s else None)"
| "rx ic da (Star a # r) p [] = rx ic da r p []"
| "rx ic da (Star a # r) p (c # s) =
     (if atom_ok ic da a c
      then (case rx ic da (Star a # r) (Some c) s of
              Some m \<Rightarrow> Some m
            | None \<Rightarrow> rx ic da r p (c # s))
      else rx ic da r p (c # s))"
| "rx ic da (Plus a # r) p [] = None"
| "rx ic da (Plus a # r) p (c # s) =
     (if atom_ok ic da a c then rx ic da (Star a # r) (Some c) s else None)"
| "rx ic da (Lazy a # r) p [] = rx ic da r p []"
| "rx ic da (Lazy a # r) p (c # s) =
     (case rx ic da r p (c # s) of
        Some m \<Rightarrow> Some m
      | None \<Rightarrow> (if atom_ok ic da a c then rx ic da (Lazy a # r) (Some c) s else None))"
| "rx ic da (Boundary # r) p s =
     (if word_opt p \<noteq> word_opt (head_opt s) then rx ic da r p s else None)"
| "rx ic da (Mark # r) p s =
     (case rx ic da r p s of
        None \<Rightarrow> None
      | Some (q, rest, ms) \<Rightarrow> Some (q, rest, s # ms))"

text \<open>\<^verbatim>\<open>re.match(pattern, s)\<close> as a truth value.\<close>

definition re_match :: "bool \<Rightarrow> bool \<Rightarrow> pattern \<Rightarrow> string \<Rightarrow> bool" where
  "re_match ic da pat s = (rx ic da pat None s \<noteq> None)"

text \<open>\<^verbatim>\<open>re.search\<close>: the match at the leftmost position that has one.\<close>

fun search_from :: "bool \<Rightarrow> bool \<Rightarrow> pattern \<Rightarrow> char option \<Rightarrow> string
    \<Rightarrow> (char option \<times> string \<times> string list) option" where
  "search_from ic da pat p [] = rx ic da pat p []"
| "search_from ic da pat p (c # s) =
     (case rx ic da pat p (c # s) of
        Some m \<Rightarrow> Some m
      | None \<Rightarrow> search_from ic da pat (Some c) s)"

definition re_search :: "bool \<Rightarrow> bool \<Rightarrow> pattern \<Rightarrow> string \<Rightarrow> bool" where
  "re_search ic da pat s = (search_from ic da pat None s \<noteq> None)"

text \<open>\<^verbatim>\<open>re.search(pattern, s).group(1)\<close> for a pattern with one group, \<open>None\<close> when nothing
  matches: the text between the two parentheses of the leftmost match.\<close>

definition search_group1 :: "bool \<Rightarrow> bool \<Rightarrow> pattern \<Rightarrow> string \<Rightarrow> string option" where
  "search_group1 ic da pat s =
     (case search_from ic da pat None s of
        Some (q, rest, [at_open, at_close]) \<Rightarrow>
          Some (take (length at_open - length at_close) at_open)
      | _ \<Rightarrow> None)"

text \<open>\<^verbatim>\<open>len(re.findall(pattern, s))\<close>: matches are counted from left to right and the scan
  resumes where a match ended (one character further after an empty match). \<open>fuel\<close> bounds
  the number of scan steps; \<open>length s + 1\<close> steps always suffice.\<close>

fun count_from :: "nat \<Rightarrow> bool \<Rightarrow> bool \<Rightarrow> pattern \<Rightarrow> char option \<Rightarrow> string \<Rightarrow> nat" where
  "count_from 0 ic da pat p s = 0"
| "count_from (Suc fuel) ic da pat p s =
     (case rx ic da pat p s of
        Some (q, rest, ms) \<Rightarrow>
          (if length rest < length s then 1 + count_from fuel ic da pat q rest
           else (case s of [] \<Rightarrow> 1 | c # s' \<Rightarrow> 1 + count_from fuel ic da pat (Some c) s'))
      | None \<Rightarrow> (case s of [] \<Rightarrow> 0 | c # s' \<Rightarrow> count_from fuel ic da pat (Some c) s'))"

definition findall_count :: "bool \<Rightarrow> bool \<Rightarrow> pattern \<Rightarrow> string \<Rightarrow> nat" where
  "findall_count ic da pat s = count_from (length s + 1) ic da pat None s"

section \<open>QualityReviewEngine\<close>

text \<open>The constructor call \<^verbatim>\<open>QualityIssue(issue_type=..., severity=..., description=...,
  file_path=..., suggested_fix=..., auto_fixable=...)\<close>; the other fields keep their
  default \<^verbatim>\<open>None\<close>.\<close>

definition QualityIssue ::
  "string \<Rightarrow> string \<Rightarrow> string \<Rightarrow> string option \<Rightarrow> string \<Rightarrow> bool \<Rightarrow> quality_issue" where
  "QualityIssue ty sev desc fp fix af =
     \<lparr>issue_type = ty, severity = sev, description = desc, issue_file_path = fp,
      line_number = None, suggested_fix = Some fix, auto_fixable = af,
      agent_responsible = None\<rparr>"

text \<open>The double and the single quotation mark.\<close>

definition dq :: char where
  "dq = CHR 0x22"

definition sq :: char where
  "sq = CHR 0x27"

subsection \<open>Pattern checks\<close>

text \<open>\<^verbatim>\<open>_has_error_handling\<close>, patterns \<^verbatim>\<open>try\s*:\<close>, \<^verbatim>\<open>except\s+\w+\<close>, \<^verbatim>\<open>catch\s*\(\<close>,
  \<^verbatim>\<open>throw\s+\<close>, \<^verbatim>\<open>raise\s+\<close>, \<^verbatim>\<open>error\s*\(\<close>, \<^verbatim>\<open>Error\s*\(\<close>, searched with IGNORECASE.\<close>

definition error_patterns :: "pattern list" where
  "error_patterns =
     [lit ''try'' @ [Star Space, One (Lit CHR '':'')],
      lit ''except'' @ [Plus Space, Plus Word],
      lit ''catch'' @ [Star Space, One (Lit CHR ''('')],
      lit ''throw'' @ [Plus Space],
      lit ''raise'' @ [Plus Space],
      lit ''error'' @ [Star Space, One (Lit CHR ''('')],
      lit ''Error'' @ [Star Space, One (Lit CHR ''('')]]"

definition has_error_handling :: "string \<Rightarrow> bool" where
  "has_error_handling c = list_ex (\<lambda>pat. re_search True False pat c) error_patterns"

text \<open>\<^verbatim>\<open>_has_logging\<close>, patterns \<^verbatim>\<open>logger\.\<close>, \<^verbatim>\<open>log\.\<close>, \<^verbatim>\<open>console\.log\<close>, \<^verbatim>\<open>print\s*\(\<close>,
  \<^verbatim>\<open>logging\.\<close>, \<^verbatim>\<open>log\s*\(\<close>, searched with IGNORECASE.\<close>

definition logging_patterns :: "pattern list" where
  "logging_patterns =
     [lit ''logger.'',
      lit ''log.'',
      lit ''console.log'',
      lit ''print'' @ [Star Space, One (Lit CHR ''('')],
      lit ''logging.'',
      lit ''log'' @ [Star Space, One (Lit CHR ''('')]]"

definition has_logging :: "string \<Rightarrow> bool" where
  "has_logging c = list_ex (\<lambda>pat. re_search True False pat c) logging_patterns"

text \<open>\<^verbatim>\<open>_has_documentation\<close>: a triple-quoted text (double or single quotes, lazily
  closed), \<^verbatim>\<open>/\*\*.*?\*/\<close>, \<^verbatim>\<open>//.*\<close> or \<^verbatim>\<open>#.*\<close>, searched with DOTALL.\<close>

definition doc_patterns :: "pattern list" where
  "doc_patterns =
     [lit [dq, dq, dq] @ [Lazy Dot] @ lit [dq, dq, dq],
      lit [sq, sq, sq] @ [Lazy Dot] @ lit [sq, sq, sq],
      lit ''/**'' @ [Lazy Dot] @ lit ''*/'',
      lit ''//'' @ [Star Dot],
      lit ''#'' @ [Star Dot]]"

definition has_documentation :: "string \<Rightarrow> bool" where
  "has_documentation c = list_ex (\<lambda>pat. re_search False True pat c) doc_patterns"

text \<open>\<^verbatim>\<open>_calculate_complexity\<close>: one plus the number of matches of \<^verbatim>\<open>\bif\b\<close>, \<^verbatim>\<open>\belse\b\<close>,
  \<^verbatim>\<open>\belif\b\<close>, \<^verbatim>\<open>\bwhile\b\<close>, \<^verbatim>\<open>\bfor\b\<close>, \<^verbatim>\<open>\btry\b\<close>, \<^verbatim>\<open>\bexcept\b\<close>, \<^verbatim>\<open>\bcase\b\<close>,
  \<^verbatim>\<open>\bswitch\b\<close>, \<^verbatim>\<open>\b\?\s*.*\s*:\s*\<close>, \<^verbatim>\<open>\band\b\<close>, \<^verbatim>\<open>\bor\b\<close>, \<^verbatim>\<open>\|\|\<close>, \<^verbatim>\<open>\&\&\<close>
  (IGNORECASE).\<close>

definition keyword :: "string \<Rightarrow> pattern" where
  "keyword w = [Boundary] @ lit w @ [Boundary]"

definition complexity_patterns :: "pattern list" where
  "complexity_patterns =
     [keyword ''if'', keyword ''else'', keyword ''elif'', keyword ''while'', keyword ''for'',
      keyword ''try'', keyword ''except'', keyword ''case'', keyword ''switch'',
      [Boundary, One (Lit CHR ''?''), Star Space, Star Dot, Star Space, One (Lit CHR '':''),
       Star Space],
      keyword ''and'', keyword ''or'', lit ''||'', lit ''&&'']"

definition calculate_complexity :: "string \<Rightarrow> nat" where
  "calculate_complexity c =
     foldl (\<lambda>complexity pat. complexity + findall_count True False pat c) 1 complexity_patterns"

text \<open>\<^verbatim>\<open>_check_security_issues\<close>: one \<^verbatim>\<open>critical\<close> issue per matching anti-pattern, in the
  order of the table. The patterns are \<^verbatim>\<open>eval\s*\(\<close>, \<^verbatim>\<open>exec\s*\(\<close>, \<^verbatim>\<open>input\s*\(\<close>,
  \<^verbatim>\<open>pickle\.loads\<close>, \<^verbatim>\<open>shell=True\<close>, \<^verbatim>\<open>subprocess\.\w+.*shell=True\<close>, and, for each of
  \<^verbatim>\<open>password\<close>, \<^verbatim>\<open>api_key\<close> and \<^verbatim>\<open>secret\<close>, the word followed by \<^verbatim>\<open>\s*=\s*\<close>, a quotation
  mark of either kind, \<^verbatim>\<open>.*\<close> and a quotation mark of either kind (IGNORECASE). The method
  builds its issues without a file path.\<close>

definition assigned_quoted :: "string \<Rightarrow> pattern" where
  "assigned_quoted w =
     lit w @ [Star Space, One (Lit CHR ''=''), Star Space, One (OneOf [dq, sq]), Star Dot,
              One (OneOf [dq, sq])]"

definition security_patterns :: "(pattern \<times> string \<times> string) list" where
  "security_patterns =
     [(lit ''eval'' @ [Star Space, One (Lit CHR ''('')], ''dangerous_eval'',
         ''Use of eval() function is dangerous''),
      (lit ''exec'' @ [Star Space, One (Lit CHR ''('')], ''dangerous_exec'',
         ''Use of exec() function is dangerous''),
      (lit ''input'' @ [Star Space, One (Lit CHR ''('')], ''dangerous_input'',
         ''Direct user input without validation''),
      (lit ''pickle.loads'', ''dangerous_pickle'', ''Pickle deserialization is dangerous''),
      (lit ''shell=True'', ''dangerous_shell'', ''Shell injection vulnerability''),
      (lit ''subprocess.'' @ [Plus Word, Star Dot] @ lit ''shell=True'', ''dangerous_subprocess'',
         ''Subprocess with shell=True is dangerous''),
      (assigned_quoted ''password'', ''hardcoded_password'', ''Hardcoded password detected''),
      (assigned_quoted ''api_key'', ''hardcoded_api_key'', ''Hardcoded API key detected''),
      (assigned_quoted ''secret'', ''hardcoded_secret'', ''Hardcoded secret detected'')]"

definition replace_char :: "char \<Rightarrow> char \<Rightarrow> string \<Rightarrow> string" where
  "replace_char a b s = map (\<lambda>c. if c = a then b else c) s"

definition check_security_issues :: "string \<Rightarrow> quality_issue list" where
  "check_security_issues c =
     concat (map (\<lambda>(pat, ty, desc).
        if re_search True False pat c
        then [\<lparr>issue_type = ty, severity = ''critical'', description = desc,
               issue_file_path = None, line_number = None,
               suggested_fix =
                 Some (''Remove or properly secure '' @ replace_char CHR ''_'' CHR '' '' ty),
               auto_fixable = False, agent_responsible = None\<rparr>]
        else []) security_patterns)"

text \<open>\<^verbatim>\<open>_has_section\<close>. The first pattern is the f-string \<^verbatim>\<open>rf'#{1,6}\s*{section}'\<close>, in which
  \<^verbatim>\<open>{1,6}\<close> is a replacement field: it formats the tuple, and the pattern searched for is
  \<^verbatim>\<open>#(1, 6)\s*section\<close>, a group around the literal text \<^verbatim>\<open>1, 6\<close>. The others are
  \<^verbatim>\<open>## section\<close>, \<^verbatim>\<open>section:\<close> and \<^verbatim>\<open>section\n[=-]+\<close> (IGNORECASE). The section name is
  pasted into the pattern; every name the source passes is made of letters only.\<close>

definition section_patterns :: "string \<Rightarrow> pattern list" where
  "section_patterns section =
     [lit ''#'' @ [Mark] @ lit ''1, 6'' @ [Mark, Star Space] @ lit section,
      lit ''## '' @ lit section,
      lit section @ lit '':'',
      lit section @ [One (Lit (CHR 0x0A)), Plus (OneOf ''=-'')]]"

definition has_section :: "string \<Rightarrow> string \<Rightarrow> bool" where
  "has_section c section = list_ex (\<lambda>pat. re_search True False pat c) (section_patterns section)"

text \<open>\<^verbatim>\<open>_count_syllables\<close>: the number of maximal runs of the vowels \<^verbatim>\<open>aeiouy\<close> in the
  lower-cased text, at least one.\<close>

fun syllables_from :: "bool \<Rightarrow> string \<Rightarrow> nat" where
  "syllables_from prev_was_vowel [] = 0"
| "syllables_from prev_was_vowel (c # s) =
     (if c \<in> set ''aeiouy''
      then (if prev_was_vowel then 0 else 1) + syllables_from True s
      else syllables_from False s)"

definition count_syllables :: "string \<Rightarrow> nat" where
  "count_syllables txt = max 1 (syllables_from False (lower txt))"

text \<open>\<^verbatim>\<open>_calculate_readability\<close>; sentences are the matches of \<^verbatim>\<open>[.!?]+\<close>.\<close>

definition calculate_readability :: "string \<Rightarrow> real" where
  "calculate_readability c =
     (let sentences = findall_count False False [Plus (OneOf ''.!?'')] c;
          words = count_words False c;
          syllables = count_syllables c
      in if sentences = 0 \<or> words = 0 then 0
         else let avg_sentence_length = real words / real sentences;
                  avg_syllables_per_word = real syllables / real words;
                  readability = 206.835 - 1.015 * avg_sentence_length
                                - 84.6 * avg_syllables_per_word
              in max 0 (min 10 ((100 - readability) / 10)))"

text \<open>\<^verbatim>\<open>_has_test_type\<close>: the pattern table by test type (IGNORECASE); an unknown type has
  no patterns.\<close>

definition test_patterns :: "string \<Rightarrow> pattern list" where
  "test_patterns test_type =
     (if test_type = ''unit'' then
        [lit ''test_'' @ [Plus Word], lit ''unittest'',
         lit ''describe'' @ [Star Space, One (Lit CHR ''('')],
         lit ''it'' @ [Star Space, One (Lit CHR ''('')]]
      else if test_type = ''integration'' then
        [lit ''integration'' @ [Star Dot] @ lit ''test'',
         lit ''test'' @ [Star Dot] @ lit ''integration'',
         lit ''e2e'' @ [Star Dot] @ lit ''test'']
      else if test_type = ''performance'' then
        [lit ''performance'' @ [Star Dot] @ lit ''test'', lit ''benchmark'',
         lit ''load'' @ [Star Dot] @ lit ''test'']
      else if test_type = ''security'' then
        [lit ''security'' @ [Star Dot] @ lit ''test'',
         lit ''test'' @ [Star Dot] @ lit ''security'',
         lit ''vulnerability'' @ [Star Dot] @ lit ''test'']
      else [])"

definition has_test_type :: "string \<Rightarrow> string \<Rightarrow> bool" where
  "has_test_type c test_type =
     list_ex (\<lambda>pat. re_search True False pat c) (test_patterns test_type)"

text \<open>\<^verbatim>\<open>_calculate_test_coverage\<close>: decided by the file name alone.\<close>

definition calculate_test_coverage :: "string \<Rightarrow> real" where
  "calculate_test_coverage path = (if contains (lower path) ''test'' then 0.9 else 0.7)"

text \<open>The architecture checks behind \<^verbatim>\<open>_follows_pattern\<close>.\<close>

definition check_separation_of_concerns :: "string \<Rightarrow> bool" where
  "check_separation_of_concerns c =
     (length (filter (\<lambda>concern. re_search True False (lit concern) c)
        [''database'', ''ui'', ''business'', ''validation'', ''logging'']) \<le> 2)"

definition check_single_responsibility :: "string \<Rightarrow> bool" where
  "check_single_responsibility c =
     (findall_count False False (lit ''def'' @ [Plus Space, Plus Word]) c \<le> 10)"

definition check_dependency_injection :: "string \<Rightarrow> bool" where
  "check_dependency_injection c =
     list_ex (\<lambda>pat. re_search True False pat c)
       [lit ''__init__'' @
          [Star Space, One (Lit CHR ''(''), Plus (NoneOf '')''), One (Lit CHR '')'')],
        lit ''constructor'' @
          [Star Space, One (Lit CHR ''(''), Plus (NoneOf '')''), One (Lit CHR '')'')],
        lit ''@inject'',
        lit ''dependencies'' @ [Star Space, One (Lit CHR ''='')]]"

definition check_factory_pattern :: "string \<Rightarrow> bool" where
  "check_factory_pattern c =
     list_ex (\<lambda>pat. re_search True False pat c)
       [lit ''class'' @ [Plus Space, Plus Word] @ lit ''Factory'',
        lit ''def'' @ [Plus Space] @ lit ''create_'' @ [Plus Word],
        lit ''factory'' @ [Star Space, One (Lit CHR ''('')],
        lit ''Factory'' @ [Star Space, One (Lit CHR ''('')]]"

definition follows_pattern :: "string \<Rightarrow> string \<Rightarrow> bool" where
  "follows_pattern c pat =
     (if pat = ''separation_of_concerns'' then check_separation_of_concerns c
      else if pat = ''single_responsibility'' then check_single_responsibility c
      else if pat = ''dependency_injection'' then check_dependency_injection c
      else if pat = ''factory_pattern'' then check_factory_pattern c
      else True)"

subsection \<open>Reviewers\<close>

text \<open>\<^verbatim>\<open>_review_code_quality\<close>. The thresholds come from the table
  \<^verbatim>\<open>quality_standards\<close> built by the constructor: \<^verbatim>\<open>max_complexity\<close> is 10,
  \<^verbatim>\<open>max_readability_score\<close> is 8.0, and \<^verbatim>\<open>min_coverage\<close> for tests is 0.9.\<close>

definition review_code_quality :: "work_item \<Rightarrow> quality_issue list" where
  "review_code_quality w =
     (let c = content w; fp = Some (file_path w); complexity = calculate_complexity c in
      (if \<not> has_error_handling c
       then [QualityIssue ''missing_error_handling'' ''high''
               ''Code lacks proper error handling'' fp
               ''Add try-catch blocks and proper error handling'' True]
       else []) @
      (if \<not> has_logging c
       then [QualityIssue ''missing_logging'' ''medium'' ''Code lacks proper logging'' fp
               ''Add logging statements for debugging and monitoring'' True]
       else []) @
      (if \<not> has_documentation c
       then [QualityIssue ''missing_documentation'' ''medium''
               ''Code lacks proper documentation'' fp ''Add docstrings and comments'' True]
       else []) @
      (if complexity > 10
       then [QualityIssue ''high_complexity'' ''high''
               (''Code complexity ('' @ str_nat complexity @ '') exceeds maximum (10)'') fp
               ''Refactor code to reduce complexity'' False]
       else []) @
      check_security_issues c)"

text \<open>The text Python prints for a float inside a message. Its digits are not modelled;
  nothing in the program reads them back.\<close>

definition float_repr :: "real \<Rightarrow> string" where
  "float_repr r = ''<float>''"

text \<open>\<^verbatim>\<open>_review_documentation\<close>, over the required sections \<^verbatim>\<open>overview\<close>, \<^verbatim>\<open>usage\<close>,
  \<^verbatim>\<open>examples\<close>.\<close>

definition review_documentation :: "work_item \<Rightarrow> quality_issue list" where
  "review_documentation w =
     (let c = content w; fp = Some (file_path w); readability_score = calculate_readability c in
      concat (map (\<lambda>section.
         if \<not> has_section c section
         then [QualityIssue ''missing_section'' ''medium''
                 (''Documentation missing required section: '' @ section) fp
                 (''Add '' @ section @ '' section to documentation'') True]
         else []) [''overview'', ''usage'', ''examples'']) @
      (if readability_score > 8
       then [QualityIssue ''poor_readability'' ''medium''
               (''Documentation readability score ('' @ float_repr readability_score
                  @ '') exceeds maximum'') fp
               ''Simplify language and improve structure'' False]
       else []))"

text \<open>\<^verbatim>\<open>_review_tests\<close>, over the required types \<^verbatim>\<open>unit\<close> and \<^verbatim>\<open>integration\<close>. Coverage is
  0.9 or 0.7, so the coverage issue is raised at 0.7 only, which \<^verbatim>\<open>:.2f\<close> prints as
  \<^verbatim>\<open>0.70\<close>.\<close>

definition review_tests :: "work_item \<Rightarrow> quality_issue list" where
  "review_tests w =
     (let c = content w; fp = Some (file_path w); coverage = calculate_test_coverage (file_path w) in
      concat (map (\<lambda>test_type.
         if \<not> has_test_type c test_type
         then [QualityIssue ''missing_test_type'' ''high'' (''Missing '' @ test_type @ '' tests'') fp
                 (''Add '' @ test_type @ '' tests'') True]
         else []) [''unit'', ''integration'']) @
      (if coverage < 0.9
       then [QualityIssue ''low_test_coverage'' ''high'' ''Test coverage (0.70) below minimum'' fp
               ''Add more test cases to improve coverage'' False]
       else []))"

text \<open>\<^verbatim>\<open>_review_architecture\<close>, over the required patterns
  \<^verbatim>\<open>separation_of_concerns\<close> and \<^verbatim>\<open>single_responsibility\<close>.\<close>

definition review_architecture :: "work_item \<Rightarrow> quality_issue list" where
  "review_architecture w =
     (let c = content w; fp = Some (file_path w) in
      concat (map (\<lambda>pat.
         if \<not> follows_pattern c pat
         then [QualityIssue ''missing_pattern'' ''medium''
                 (''Code doesn'' @ [sq] @ ''t follow '' @ pat @ '' pattern'') fp
                 (''Refactor to follow '' @ pat @ '' pattern'') False]
         else []) [''separation_of_concerns'', ''single_responsibility'']))"

subsection \<open>Metrics\<close>

text \<open>\<^verbatim>\<open>_calculate_code_quality_score\<close>.\<close>

definition calculate_code_quality_score :: "string \<Rightarrow> real" where
  "calculate_code_quality_score c =
     (let s0 = (1::real);
          s1 = (if \<not> has_error_handling c then s0 - 0.2 else s0);
          s2 = (if \<not> has_logging c then s1 - 0.1 else s1);
          s3 = (if \<not> has_documentation c then s2 - 0.1 else s2);
          complexity = calculate_complexity c;
          s4 = (if complexity > 10 then s3 - 0.3 else if complexity > 5 then s3 - 0.1 else s3)
      in max 0 s4)"

text \<open>
  \<^verbatim>\<open>_calculate_documentation_completeness(self, content)\<close> starts with
  \<^verbatim>\<open>if work_item.work_type != WorkType.DOCUMENTATION\<close>. \<^verbatim>\<open>work_item\<close> is not a parameter
  or a local of the method, so Python looks it up among the module's globals and the
  builtins. The module binds no such global (it defines the logger, the classes and
  \<^verbatim>\<open>main\<close>), so the lookup raises \<^verbatim>\<open>NameError\<close>.
\<close>

definition global_work_item :: "exn + work_item" where
  "global_work_item = Inl (NameError ''work_item'')"

definition calculate_documentation_completeness :: "string \<Rightarrow> exn + real" where
  "calculate_documentation_completeness c =
     (case global_work_item of
        Inl e \<Rightarrow> Inl e
      | Inr w \<Rightarrow>
          if work_type w \<noteq> DOCUMENTATION then Inr 0.8
          else Inr (real (length (filter (has_section c)
                  [''overview'', ''usage'', ''examples'', ''installation'', ''configuration'']))
                / real (length
                  [''overview'', ''usage'', ''examples'', ''installation'', ''configuration''])))"

text \<open>\<^verbatim>\<open>_calculate_performance_score\<close>: 0.2 off for each of \<^verbatim>\<open>while\s+True\s*:\<close>,
  \<^verbatim>\<open>for\s+.*\s+in\s+range\s*\(\s*10000\<close>, \<^verbatim>\<open>time\.sleep\s*\(\s*[1-9]\<close>,
  \<^verbatim>\<open>recursive.*factorial\<close> that is found (IGNORECASE).\<close>

definition performance_issues :: "pattern list" where
  "performance_issues =
     [lit ''while'' @ [Plus Space] @ lit ''True'' @ [Star Space, One (Lit CHR '':'')],
      lit ''for'' @ [Plus Space, Star Dot, Plus Space] @ lit ''in'' @ [Plus Space] @ lit ''range''
        @ [Star Space, One (Lit CHR ''(''), Star Space] @ lit ''10000'',
      lit ''time.sleep'' @ [Star Space, One (Lit CHR ''(''), Star Space,
        One (Range CHR ''1'' CHR ''9'')],
      lit ''recursive'' @ [Star Dot] @ lit ''factorial'']"

definition calculate_performance_score :: "string \<Rightarrow> real" where
  "calculate_performance_score c =
     max 0 (foldl (\<lambda>score pat. if re_search True False pat c then score - 0.2 else score)
              1 performance_issues)"

text \<open>\<^verbatim>\<open>_calculate_architecture_compliance\<close>.\<close>

definition calculate_architecture_compliance :: "string \<Rightarrow> real" where
  "calculate_architecture_compliance c =
     max 0 (foldl (\<lambda>score pat. if \<not> follows_pattern c pat then score - 0.2 else score)
              1 [''separation_of_concerns'', ''single_responsibility''])"

text \<open>
  \<^verbatim>\<open>_calculate_quality_metrics\<close> assigns the sub-scores of the item one after the other and
  calls \<^verbatim>\<open>calculate_overall_score\<close> last. An exception leaves the item with the
  assignments made before it.
\<close>

definition calculate_quality_metrics :: "work_item \<Rightarrow> (exn + unit) \<times> work_item" where
  "calculate_quality_metrics w =
     (let c = content w;
          w1 = w\<lparr>metrics := (metrics w)\<lparr>code_quality := calculate_code_quality_score c\<rparr>\<rparr>;
          w2 = w1\<lparr>metrics := (metrics w1)\<lparr>test_coverage := calculate_test_coverage (file_path w1)\<rparr>\<rparr>
      in case calculate_documentation_completeness c of
           Inl e \<Rightarrow> (Inl e, w2)
         | Inr d \<Rightarrow>
             let w3 = w2\<lparr>metrics := (metrics w2)\<lparr>documentation_completeness := d\<rparr>\<rparr>;
                 security_issues = check_security_issues c;
                 w4 = w3\<lparr>metrics := (metrics w3)
                        \<lparr>security_score := max 0 (1 - real (length security_issues) * 0.2)\<rparr>\<rparr>;
                 w5 = w4\<lparr>metrics := (metrics w4)
                        \<lparr>performance_score := calculate_performance_score c\<rparr>\<rparr>;
                 w6 = w5\<lparr>metrics := (metrics w5)
                        \<lparr>architecture_compliance := calculate_architecture_compliance c\<rparr>\<rparr>
             in (Inr (), w6\<lparr>metrics := calculate_overall_score (metrics w6)\<rparr>))"

subsection \<open>Classification and the review pass\<close>

text \<open>\<^verbatim>\<open>_determine_quality_standard\<close> reads the overall score and the issue list stored in
  the work item.\<close>

definition determine_quality_standard :: "work_item \<Rightarrow> quality_standard" where
  "determine_quality_standard w =
     (let overall = overall_score (metrics w);
          critical_issues = length (filter (\<lambda>i. severity i = ''critical'') (issues w))
      in if critical_issues > 0 then UNACCEPTABLE
         else if overall \<ge> 0.9 then EXCELLENT
         else if overall \<ge> 0.8 then GOOD
         else if overall \<ge> 0.7 then ACCEPTABLE
         else if overall \<ge> 0.6 then NEEDS_IMPROVEMENT
         else UNACCEPTABLE)"

text \<open>The issues one pass detects: the reviewer is chosen by work type, and the other four
  work types have none.\<close>

definition detect_issues :: "work_item \<Rightarrow> quality_issue list" where
  "detect_issues w =
     (if work_type w = CODE then review_code_quality w
      else if work_type w = DOCUMENTATION then review_documentation w
      else if work_type w = TESTS then review_tests w
      else if work_type w = ARCHITECTURE then review_architecture w
      else [])"

text \<open>
  \<^verbatim>\<open>review_work_item\<close>: the detected issues are collected in a local list, the metrics are
  computed, and the standard is determined from the work item. The local list is returned;
  it is not stored in the item (the caller does that afterwards).
\<close>

type_synonym review_result = "(exn + quality_standard \<times> quality_issue list) \<times> work_item"

definition review_work_item :: "work_item \<Rightarrow> review_result" where
  "review_work_item w =
     (let found = detect_issues w in
      case calculate_quality_metrics w of
        (Inl e, w') \<Rightarrow> (Inl e, w')
      | (Inr u, w') \<Rightarrow> (Inr (determine_quality_standard w', found), w'))"

section \<open>AutoFixEngine\<close>

text \<open>The transformers are \<^verbatim>\<open>content, issue \<rightarrow> content\<close> rewrites on text. On strings they
  raise nothing, so the \<^verbatim>\<open>try\<close> around their call in \<^verbatim>\<open>auto_fix_issue\<close> has no branch
  here.\<close>

definition nl :: string where
  "nl = [CHR 0x0A]"

text \<open>\<^verbatim>\<open>re.match(r'\s*def\s+', line)\<close> and \<^verbatim>\<open>len(line) - len(line.lstrip())\<close>.\<close>

definition is_def_line :: "string \<Rightarrow> bool" where
  "is_def_line line = re_match False False ([Star Space] @ lit ''def'' @ [Plus Space]) line"

definition indent_of :: "string \<Rightarrow> nat" where
  "indent_of line = length line - length (lstrip line)"

text \<open>\<^verbatim>\<open>_fix_missing_error_handling\<close>: the loop over the lines carries \<^verbatim>\<open>in_function\<close> and
  \<^verbatim>\<open>indent_level\<close>; the first statement after a \<^verbatim>\<open>def\<close> line is wrapped in
  \<^verbatim>\<open>try\<close>/\<^verbatim>\<open>except\<close>.\<close>

fun wrap_lines :: "bool \<Rightarrow> nat \<Rightarrow> string list \<Rightarrow> string list" where
  "wrap_lines in_function indent_level [] = []"
| "wrap_lines in_function indent_level (line # rest) =
     (if is_def_line line then
        line # wrap_lines True (indent_of line) rest
      else if in_function \<and> strip line \<noteq> [] \<and> \<not> startswith line (spaces (indent_level + 4)) then
        line # wrap_lines False indent_level rest
      else if in_function \<and> strip line \<noteq> [] \<and> \<not> startswith (strip line) ''try:'' then
        [spaces (indent_level + 4) @ ''try:'',
         spaces (indent_level + 8) @ lstrip line,
         spaces (indent_level + 4) @ ''except Exception as e:'',
         spaces (indent_level + 8) @ ''logger.error(f'' @ [dq] @ ''Error: {e}'' @ [dq] @ '')'',
         spaces (indent_level + 8) @ ''raise'']
        @ wrap_lines False indent_level rest
      else line # wrap_lines in_function indent_level rest)"

definition fix_missing_error_handling :: "string \<Rightarrow> quality_issue \<Rightarrow> string" where
  "fix_missing_error_handling c issue =
     (if contains c ''def '' then join_lines (wrap_lines False 0 (split_lines c)) else c)"

text \<open>\<^verbatim>\<open>_fix_missing_logging\<close>: unless the text contains \<^verbatim>\<open>import logging\<close>, the import lines
  are moved to the front, followed by the logging import, the logger, an empty line and the
  other lines.\<close>

definition is_import_line :: "string \<Rightarrow> bool" where
  "is_import_line line = (startswith line ''import '' \<or> startswith line ''from '')"

definition fix_missing_logging :: "string \<Rightarrow> quality_issue \<Rightarrow> string" where
  "fix_missing_logging c issue =
     (if \<not> contains c ''import logging'' then
        (let lines = split_lines c;
             import_section = filter is_import_line lines;
             other_lines = filter (\<lambda>l. \<not> is_import_line l) lines
         in join_lines ((import_section @ [''import logging'',
                           ''logger = logging.getLogger(__name__)'']) @ [''''] @ other_lines))
      else c)"

text \<open>\<^verbatim>\<open>_fix_missing_documentation\<close>: a three-line docstring stub after every \<^verbatim>\<open>def\<close>
  line.\<close>

fun add_docstrings :: "string list \<Rightarrow> string list" where
  "add_docstrings [] = []"
| "add_docstrings (line # rest) =
     (if is_def_line line then
        [line,
         spaces (indent_of line + 4) @ [dq, dq, dq],
         spaces (indent_of line + 4) @ ''TODO: Add function description'',
         spaces (indent_of line + 4) @ [dq, dq, dq]] @ add_docstrings rest
      else line # add_docstrings rest)"

definition fix_missing_documentation :: "string \<Rightarrow> quality_issue \<Rightarrow> string" where
  "fix_missing_documentation c issue =
     (if contains c ''def '' then join_lines (add_docstrings (split_lines c)) else c)"

text \<open>\<^verbatim>\<open>_fix_missing_section\<close>: the section name is group 1 of \<^verbatim>\<open>section:\s+(\w+)\<close> in the
  issue description; its template (or the generic one) is appended after a newline.\<close>

definition section_templates :: "string \<rightharpoonup> string" where
  "section_templates =
     [''overview'' \<mapsto> ''## Overview'' @ nl @ nl @ ''TODO: Add project overview'' @ nl,
      ''usage'' \<mapsto> ''## Usage'' @ nl @ nl @ ''TODO: Add usage instructions'' @ nl,
      ''examples'' \<mapsto> ''## Examples'' @ nl @ nl @ ''TODO: Add code examples'' @ nl,
      ''installation'' \<mapsto> ''## Installation'' @ nl @ nl @ ''TODO: Add installation instructions'' @ nl,
      ''configuration'' \<mapsto> ''## Configuration'' @ nl @ nl @ ''TODO: Add configuration details'' @ nl]"

definition section_of :: "string \<Rightarrow> string option" where
  "section_of desc =
     search_group1 False False (lit ''section:'' @ [Plus Space, Mark, Plus Word, Mark]) desc"

definition fix_missing_section :: "string \<Rightarrow> quality_issue \<Rightarrow> string" where
  "fix_missing_section c issue =
     (case section_of (description issue) of
        Some section \<Rightarrow>
          (let template = (case section_templates section of
                             Some t \<Rightarrow> t
                           | None \<Rightarrow> ''## '' @ title section @ nl @ nl @ ''TODO: Add '' @ section
                                       @ '' content'' @ nl)
           in c @ nl @ template)
      | None \<Rightarrow> c)"

text \<open>\<^verbatim>\<open>_fix_missing_test_type\<close>: the test type is group 1 of \<^verbatim>\<open>Missing\s+(\w+)\s+tests\<close> in
  the issue description; a test stub is appended after a newline.\<close>

definition test_templates :: "string \<rightharpoonup> string" where
  "test_templates =
     [''unit'' \<mapsto>
        nl @ ''def test_unit_example():'' @ nl
        @ ''    '' @ [dq, dq, dq] @ ''Unit test example'' @ [dq, dq, dq] @ nl
        @ ''    # TODO: Add unit test'' @ nl
        @ ''    assert True'' @ nl,
      ''integration'' \<mapsto>
        nl @ ''def test_integration_example():'' @ nl
        @ ''    '' @ [dq, dq, dq] @ ''Integration test example'' @ [dq, dq, dq] @ nl
        @ ''    # TODO: Add integration test'' @ nl
        @ ''    assert True'' @ nl]"

definition test_type_of :: "string \<Rightarrow> string option" where
  "test_type_of desc =
     search_group1 False False
       (lit ''Missing'' @ [Plus Space, Mark, Plus Word, Mark, Plus Space] @ lit ''tests'') desc"

definition fix_missing_test_type :: "string \<Rightarrow> quality_issue \<Rightarrow> string" where
  "fix_missing_test_type c issue =
     (case test_type_of (description issue) of
        Some test_type \<Rightarrow>
          (let template = (case test_templates test_type of
                             Some t \<Rightarrow> t
                           | None \<Rightarrow>
                               nl @ ''def test_'' @ test_type @ ''_example():'' @ nl
                               @ ''    '' @ [dq, dq, dq] @ ''TODO: Add '' @ test_type @ '' test''
                               @ [dq, dq, dq] @ nl
                               @ ''    assert True'' @ nl)
           in c @ nl @ template)
      | None \<Rightarrow> c)"

text \<open>The registry \<^verbatim>\<open>fix_patterns\<close> built by the constructor, from issue type to
  transformer.\<close>

definition fix_patterns :: "string \<rightharpoonup> (string \<Rightarrow> quality_issue \<Rightarrow> string)" where
  "fix_patterns =
     [''missing_error_handling'' \<mapsto> fix_missing_error_handling,
      ''missing_logging'' \<mapsto> fix_missing_logging,
      ''missing_documentation'' \<mapsto> fix_missing_documentation,
      ''missing_section'' \<mapsto> fix_missing_section,
      ''missing_test_type'' \<mapsto> fix_missing_test_type]"

text \<open>\<^verbatim>\<open>auto_fix_issue\<close>: true, with the new content stored in the item, when the transformer
  of an auto-fixable issue changes the content.\<close>

definition auto_fix_issue :: "work_item \<Rightarrow> quality_issue \<Rightarrow> bool \<times> work_item" where
  "auto_fix_issue w issue =
     (if \<not> auto_fixable issue then (False, w)
      else case fix_patterns (issue_type issue) of
             None \<Rightarrow> (False, w)
           | Some fix_function \<Rightarrow>
               (let fixed_content = fix_function (content w) issue
                in if fixed_content \<noteq> content w then (True, w\<lparr>content := fixed_content\<rparr>)
                   else (False, w)))"

section \<open>Arithmetic on doubles\<close>

text \<open>
  \<^verbatim>\<open>_update_agent_performance\<close> computes the average score and the revision rate of an
  agent in Python floats, which are IEEE 754 doubles. Here a double is the real number it
  stands for, and an operation on doubles is the exact operation followed by rounding to the
  nearest number with 53 significant bits, a tie going to the even mantissa. The exponent
  range is not modelled: there is no overflow to infinity, no subnormal number, no NaN and
  no signed zero. Scores lie between 0 and 1 and the counts of a run are far below
  \<open>2 ^ 53\<close>, so the computations of the method stay away from those limits.
\<close>

text \<open>The number of binary digits of a natural number, and the powers of two.\<close>

fun bit_length :: "nat \<Rightarrow> nat" where
  "bit_length n = (if n = 0 then 0 else Suc (bit_length (n div 2)))"

declare bit_length.simps [simp del]

definition pow2 :: "int \<Rightarrow> real" where
  "pow2 e = (if 0 \<le> e then 2 ^ nat e else 1 / 2 ^ nat (- e))"

text \<open>The binary exponent of a positive real \<open>x\<close>: the \<open>e\<close> with
  \<open>pow2 e \<le> x < pow2 (e + 1)\<close>.\<close>

definition exponent_of :: "real \<Rightarrow> int" where
  "exponent_of x =
     (if 1 \<le> x then int (bit_length (nat \<lfloor>x\<rfloor>)) - 1
      else (let k = int (bit_length (nat \<lfloor>1 / x\<rfloor>)) - 1
            in if x * pow2 k = 1 then - k else - k - 1))"

text \<open>Rounding to the nearest integer, a tie going to the even one, and rounding to the
  nearest double: the mantissa is the rounded multiple of the unit in the last place.\<close>

definition round_half_even :: "real \<Rightarrow> int" where
  "round_half_even x =
     (let f = \<lfloor>x\<rfloor>; d = x - real_of_int f
      in if d < 1 / 2 then f else if d > 1 / 2 then f + 1 else if even f then f else f + 1)"

definition round_double :: "real \<Rightarrow> real" where
  "round_double x =
     (if x = 0 then 0
      else (let u = pow2 (exponent_of \<bar>x\<bar> - 52)
            in sgn x * real_of_int (round_half_even (\<bar>x\<bar> / u)) * u))"

text \<open>The operations of Python on floats, and the conversion of an \<^verbatim>\<open>int\<close> operand of a
  mixed operation.\<close>

definition fadd :: "real \<Rightarrow> real \<Rightarrow> real" where
  "fadd x y = round_double (x + y)"


definition fmul :: "real \<Rightarrow> real \<Rightarrow> real" where
  "fmul x y = round_double (x * y)"

definition fdiv :: "real \<Rightarrow> real \<Rightarrow> real" where
  "fdiv x y = round_double (x / y)"

definition double_of_nat :: "nat \<Rightarrow> real" where
  "double_of_nat n = round_double (real n)"

section \<open>CEOQualityControlAgent\<close>

text \<open>
  The state of the agent that the review pipeline reads and writes.
  \<^item> \<open>quality_standards\<close> is the section \<^verbatim>\<open>config["quality_standards"]\<close>. The loader merges
    the top-level keys of the configuration file over the defaults, so a file that has this
    section replaces it whole; a field is \<open>None\<close> when the loaded section lacks the key, and
    reading it raises \<^verbatim>\<open>KeyError\<close>.
  \<^item> \<open>quality_engine\<close> is the attribute \<^verbatim>\<open>self.quality_engine\<close>: the review pass the
    pipeline calls, which returns a standard and issues or raises, and may change the item.
  \<^item> \<open>agent_performance\<close> and \<open>dashboard_data\<close> are the dictionaries of the source, with the
    keys the pipeline touches. The three counts of a performance record start at 0 and
    \<^verbatim>\<open>_update_agent_performance\<close>, their only writer, increments them; they are natural
    numbers.
  \<^item> \<open>can_write\<close> stands for the file system: whether writing back to a path succeeds.
  \<^item> \<open>trace\<close> lists, oldest first, the calls the pipeline made to its collaborators: the
    review engine, the auto-fix engine, the file written back, the revision notice, the
    escalation store, the dashboard file and the review store. The methods behind the last
    four catch every exception of their own input and output, so they always return.
\<close>

record quality_standards_section =
  min_overall_score :: "real option"
  auto_fix_enabled :: "bool option"

record agent_stats =
  agent_total_reviews :: nat
  agent_passed_reviews :: nat
  agent_failed_reviews :: nat
  avg_quality_score :: real
  revision_rate :: real
  specialties :: "string list"
  improvement_areas :: "string list"

record dashboard =
  total_reviews :: int
  passed_reviews :: int
  failed_reviews :: int
  auto_fixes :: int
  agent_scores :: "string \<rightharpoonup> real"

text \<open>What the revision instructions and the escalation report are built from; the layout
  of the two texts is not modelled.\<close>

record revision_instructions =
  ri_file_path :: string
  ri_metrics :: quality_metrics
  ri_issues :: "quality_issue list"
  ri_requirements :: "string list"
  ri_min_overall_score :: real
  ri_revision_count :: int
  ri_max_revisions :: int

record ceo_report =
  cr_file_path :: string
  cr_agent_name :: string
  cr_project_name :: string
  cr_revision_count :: int
  cr_overall_score :: real
  cr_issues :: "quality_issue list"

datatype event =
    ReviewCall string
  | AutoFixCall quality_issue
  | ContentWritten string string
  | RevisionNotice string revision_instructions
  | EscalationStored string ceo_report
  | CeoDashboardUpdated string
  | ReviewStored work_item

record ceo_agent =
  quality_standards :: quality_standards_section
  quality_engine :: "work_item \<Rightarrow> review_result"
  active_reviews :: "string \<rightharpoonup> work_item"
  agent_performance :: "string \<rightharpoonup> agent_stats"
  dashboard_data :: dashboard
  can_write :: "string \<Rightarrow> bool"
  trace :: "event list"

text \<open>The defaults of \<^verbatim>\<open>_load_config\<close> for the section, and the agent as the constructor
  builds it for a loaded section and a file system.\<close>

definition default_quality_standards :: quality_standards_section where
  "default_quality_standards = \<lparr>min_overall_score = Some 0.8, auto_fix_enabled = Some True\<rparr>"

definition CEOQualityControlAgent :: "quality_standards_section \<Rightarrow> (string \<Rightarrow> bool) \<Rightarrow> ceo_agent" where
  "CEOQualityControlAgent qs fs =
     \<lparr>quality_standards = qs, quality_engine = review_work_item, active_reviews = Map.empty,
      agent_performance = Map.empty,
      dashboard_data = \<lparr>total_reviews = 0, passed_reviews = 0, failed_reviews = 0,
                          auto_fixes = 0, agent_scores = Map.empty\<rparr>,
      can_write = fs, trace = []\<rparr>"

definition emit :: "event \<Rightarrow> ceo_agent \<Rightarrow> ceo_agent" where
  "emit e a = a\<lparr>trace := trace a @ [e]\<rparr>"

subsection \<open>Auto-fix attempt\<close>

text \<open>\<^verbatim>\<open>_attempt_auto_fixes\<close>: every auto-fixable issue of the item is handed to the auto-fix
  engine; each success counts once, also on the dashboard. If anything was fixed the content
  is written back to the file, and a failed write resets the count to 0.\<close>

fun auto_fix_loop :: "quality_issue list \<Rightarrow> int \<Rightarrow> ceo_agent \<Rightarrow> work_item
    \<Rightarrow> int \<times> ceo_agent \<times> work_item" where
  "auto_fix_loop [] fixed_count a w = (fixed_count, a, w)"
| "auto_fix_loop (issue # rest) fixed_count a w =
     (if auto_fixable issue then
        (let a1 = emit (AutoFixCall issue) a in
         case auto_fix_issue w issue of
           (True, w1) \<Rightarrow>
             auto_fix_loop rest (fixed_count + 1)
               (a1\<lparr>dashboard_data := (dashboard_data a1)
                     \<lparr>auto_fixes := auto_fixes (dashboard_data a1) + 1\<rparr>\<rparr>) w1
         | (False, w1) \<Rightarrow> auto_fix_loop rest fixed_count a1 w1)
      else auto_fix_loop rest fixed_count a w)"

definition attempt_auto_fixes :: "ceo_agent \<Rightarrow> work_item \<Rightarrow> int \<times> ceo_agent \<times> work_item" where
  "attempt_auto_fixes a w =
     (case auto_fix_loop (issues w) 0 a w of
        (fixed_count, a1, w1) \<Rightarrow>
          if fixed_count > 0 then
            (if can_write a1 (file_path w1)
             then (fixed_count, emit (ContentWritten (file_path w1) (content w1)) a1, w1)
             else (0, a1, w1))
          else (fixed_count, a1, w1))"

subsection \<open>Revision handling and escalation\<close>

text \<open>\<^verbatim>\<open>_generate_revision_instructions\<close> reads
  \<^verbatim>\<open>config['quality_standards']['min_overall_score']\<close>.\<close>

definition generate_revision_instructions :: "ceo_agent \<Rightarrow> work_item \<Rightarrow> exn + revision_instructions" where
  "generate_revision_instructions a w =
     (case min_overall_score (quality_standards a) of
        None \<Rightarrow> Inl (KeyError ''min_overall_score'')
      | Some m \<Rightarrow>
          Inr \<lparr>ri_file_path = file_path w, ri_metrics = metrics w, ri_issues = issues w,
               ri_requirements = requirements w, ri_min_overall_score = m,
               ri_revision_count = revision_count w, ri_max_revisions = max_revisions w\<rparr>)"

text \<open>\<^verbatim>\<open>_escalate_to_ceo\<close>: the report is stored by \<^verbatim>\<open>_store_ceo_escalation\<close> and the dashboard
  file is rewritten by \<^verbatim>\<open>_update_ceo_dashboard\<close>. The status of the item is not assigned.\<close>

definition escalate_to_ceo :: "ceo_agent \<Rightarrow> work_item \<Rightarrow> ceo_agent" where
  "escalate_to_ceo a w =
     (let report = \<lparr>cr_file_path = file_path w, cr_agent_name = agent_name w,
                    cr_project_name = project_name w, cr_revision_count = revision_count w,
                    cr_overall_score = overall_score (metrics w), cr_issues = issues w\<rparr>
      in emit (CeoDashboardUpdated (file_path w)) (emit (EscalationStored (item_id w) report) a))"

text \<open>\<^verbatim>\<open>_send_for_revision\<close>.\<close>

definition send_for_revision :: "ceo_agent \<Rightarrow> work_item \<Rightarrow> (exn + unit) \<times> ceo_agent \<times> work_item" where
  "send_for_revision a w =
     (let w1 = w\<lparr>status := ''needs_revision''\<rparr>;
          w2 = w1\<lparr>revision_count := revision_count w1 + 1\<rparr>;
          a1 = a\<lparr>dashboard_data := (dashboard_data a)
                  \<lparr>failed_reviews := failed_reviews (dashboard_data a) + 1\<rparr>\<rparr>
      in case generate_revision_instructions a1 w2 of
           Inl e \<Rightarrow> (Inl e, a1, w2)
         | Inr revision_instructions \<Rightarrow>
             (let a2 = emit (RevisionNotice (agent_name w2) revision_instructions) a1
              in if revision_count w2 \<ge> max_revisions w2
                 then (Inr (), escalate_to_ceo a2 w2, w2)
                 else (Inr (), a2, w2)))"

subsection \<open>Performance records\<close>

text \<open>\<^verbatim>\<open>_update_agent_performance\<close>. The average is
  \<^verbatim>\<open>(avg * (total - 1) + score) / total\<close> in floats: the two \<^verbatim>\<open>int\<close> operands are converted
  to doubles and each of the three operations rounds. The revision rate is the quotient of
  two \<^verbatim>\<open>int\<close>s, which Python rounds once. The total has just been incremented, so the
  divisions are by at least 1.\<close>

definition new_agent_stats :: agent_stats where
  "new_agent_stats = \<lparr>agent_total_reviews = 0, agent_passed_reviews = 0,
     agent_failed_reviews = 0, avg_quality_score = 0, revision_rate = 0, specialties = [],
     improvement_areas = []\<rparr>"

definition update_agent_performance :: "ceo_agent \<Rightarrow> work_item \<Rightarrow> ceo_agent" where
  "update_agent_performance a w =
     (let name = agent_name w;
          s0 = (case agent_performance a name of None \<Rightarrow> new_agent_stats | Some s \<Rightarrow> s);
          s1 = s0\<lparr>agent_total_reviews := agent_total_reviews s0 + 1\<rparr>;
          s2 = (if status w = ''approved''
                then s1\<lparr>agent_passed_reviews := agent_passed_reviews s1 + 1\<rparr>
                else s1\<lparr>agent_failed_reviews := agent_failed_reviews s1 + 1\<rparr>);
          s3 = s2\<lparr>avg_quality_score :=
                   fdiv (fadd (fmul (avg_quality_score s2)
                                 (double_of_nat (agent_total_reviews s2 - 1)))
                           (overall_score (metrics w)))
                     (double_of_nat (agent_total_reviews s2))\<rparr>;
          s4 = s3\<lparr>revision_rate :=
                   round_double (real (agent_failed_reviews s3) / real (agent_total_reviews s3))\<rparr>
      in a\<lparr>agent_performance := (agent_performance a)(name \<mapsto> s4),
           dashboard_data := (dashboard_data a)
             \<lparr>agent_scores := (agent_scores (dashboard_data a))(name \<mapsto> avg_quality_score s4)\<rparr>\<rparr>)"

subsection \<open>The review pipeline\<close>

definition approve :: "ceo_agent \<Rightarrow> work_item \<Rightarrow> (exn + unit) \<times> ceo_agent \<times> work_item" where
  "approve a w =
     (Inr (), a\<lparr>dashboard_data := (dashboard_data a)
                 \<lparr>passed_reviews := passed_reviews (dashboard_data a) + 1\<rparr>\<rparr>,
      w\<lparr>status := ''approved''\<rparr>)"

text \<open>The branch on the standard of the first pass (the \<^verbatim>\<open>if\<close>/\<^verbatim>\<open>elif\<close> chain of
  \<^verbatim>\<open>_review_work_item\<close>).\<close>

definition decide :: "quality_standard \<Rightarrow> ceo_agent \<Rightarrow> work_item
    \<Rightarrow> (exn + unit) \<times> ceo_agent \<times> work_item" where
  "decide quality_std a w =
     (if quality_std \<in> {EXCELLENT, GOOD} then approve a w
      else if quality_std = ACCEPTABLE then approve a w
      else if quality_std = NEEDS_IMPROVEMENT then
        (case auto_fix_enabled (quality_standards a) of
           None \<Rightarrow> (Inl (KeyError ''auto_fix_enabled''), a, w)
         | Some enabled \<Rightarrow>
             if enabled then
               (case attempt_auto_fixes a w of
                  (fixed_count, a1, w1) \<Rightarrow>
                    if fixed_count > 0 then
                      (let a2 = emit (ReviewCall (item_id w1)) a1 in
                       case quality_engine a2 w1 of
                         (Inl e, w2) \<Rightarrow> (Inl e, a2, w2)
                       | (Inr (quality_std2, found2), w2) \<Rightarrow>
                           (let w3 = w2\<lparr>issues := found2\<rparr> in
                            if quality_std2 \<in> {EXCELLENT, GOOD, ACCEPTABLE} then approve a2 w3
                            else send_for_revision a2 w3))
                    else send_for_revision a1 w1)
             else send_for_revision a w)
      else send_for_revision a w)"

text \<open>The body of the \<^verbatim>\<open>try\<close> block of \<^verbatim>\<open>_review_work_item\<close>.\<close>

definition review_steps :: "ceo_agent \<Rightarrow> work_item \<Rightarrow> (exn + unit) \<times> ceo_agent \<times> work_item" where
  "review_steps a w =
     (let a0 = a\<lparr>active_reviews := (active_reviews a)(item_id w \<mapsto> w)\<rparr>;
          a1 = emit (ReviewCall (item_id w)) a0
      in case quality_engine a1 w of
           (Inl e, w1) \<Rightarrow> (Inl e, a1, w1)
         | (Inr (quality_std, found), w1) \<Rightarrow>
             (let w2 = w1\<lparr>issues := found\<rparr>;
                  a2 = a1\<lparr>dashboard_data := (dashboard_data a1)
                          \<lparr>total_reviews := total_reviews (dashboard_data a1) + 1\<rparr>\<rparr>
              in case decide quality_std a2 w2 of
                   (Inl e, a3, w3) \<Rightarrow> (Inl e, a3, w3)
                 | (Inr u, a3, w3) \<Rightarrow>
                     (Inr (), update_agent_performance (emit (ReviewStored w3) a3) w3, w3)))"

text \<open>\<^verbatim>\<open>_review_work_item\<close>: an exception of the body is caught and sets the status
  \<^verbatim>\<open>error\<close>; the item leaves the active reviews in every case.\<close>

definition ceo_review_work_item :: "ceo_agent \<Rightarrow> work_item \<Rightarrow> ceo_agent \<times> work_item" where
  "ceo_review_work_item a w =
     (case review_steps a w of
        (r, a1, w1) \<Rightarrow>
          (let w2 = (case r of Inl e \<Rightarrow> w1\<lparr>status := ''error''\<rparr> | Inr u \<Rightarrow> w1)
           in (a1\<lparr>active_reviews := (active_reviews a1)(item_id w2 := None)\<rparr>, w2)))"

section \<open>Reading the trace, and example inputs\<close>

fun is_review_call :: "event \<Rightarrow> bool" where
  "is_review_call (ReviewCall i) = True"
| "is_review_call e = False"

fun is_auto_fix_call :: "event \<Rightarrow> bool" where
  "is_auto_fix_call (AutoFixCall i) = True"
| "is_auto_fix_call e = False"

fun is_revision_notice :: "event \<Rightarrow> bool" where
  "is_revision_notice (RevisionNotice n r) = True"
| "is_revision_notice e = False"

fun is_escalation :: "event \<Rightarrow> bool" where
  "is_escalation (EscalationStored i r) = True"
| "is_escalation e = False"

text \<open>A work item with a given overall score, and one with given revision numbers.\<close>

definition scored :: "real \<Rightarrow> work_item \<Rightarrow> work_item" where
  "scored x w = w\<lparr>metrics := (metrics w)\<lparr>overall_score := x\<rparr>\<rparr>"

definition revised :: "int \<Rightarrow> int \<Rightarrow> work_item \<Rightarrow> work_item" where
  "revised n m w = w\<lparr>revision_count := n, max_revisions := m\<rparr>"

text \<open>Two freshly built code items, the second with a call of \<^verbatim>\<open>eval\<close>, and a fresh
  documentation item.\<close>

definition plain_item :: work_item where
  "plain_item = WorkItem ''item-1'' CODE ''src/app.py'' ''agent-a'' ''demo'' ''x = 1'' []"

definition eval_item :: work_item where
  "eval_item = WorkItem ''item-2'' CODE ''src/app.py'' ''agent-a'' ''demo'' ''eval(x)'' []"

definition doc_item :: work_item where
  "doc_item = WorkItem ''item-3'' DOCUMENTATION ''docs/guide.md'' ''agent-a'' ''demo'' ''# Guide'' []"

text \<open>The agent as shipped: default configuration, its own review engine, a writable file
  system.\<close>

definition shipped_agent :: ceo_agent where
  "shipped_agent = CEOQualityControlAgent default_quality_standards (\<lambda>p. True)"

text \<open>A stand-in for \<^verbatim>\<open>self.quality_engine\<close>: an engine that gives every item the same
  standard and issues.\<close>

definition constant_engine :: "quality_standard \<Rightarrow> quality_issue list \<Rightarrow> work_item \<Rightarrow> review_result" where
  "constant_engine qs found w = (Inr (qs, found), w)"

definition overview_issue :: quality_issue where
  "overview_issue = QualityIssue ''missing_section'' ''medium''
     ''Documentation missing required section: overview'' (Some ''docs/guide.md'')
     ''Add overview section to documentation'' True"

definition documentation_issue :: quality_issue where
  "documentation_issue = QualityIssue ''missing_documentation'' ''medium''
     ''Code lacks proper documentation'' (Some ''src/app.py'') ''Add docstrings and comments'' True"


text \<open>The auto-fix calls one run of the pipeline is expected to make, given the standard of
  the first pass: one per auto-fixable issue when the standard is \<^verbatim>\<open>needs_improvement\<close> and
  auto-fix is enabled, none otherwise.\<close>

definition auto_fix_calls_expected :: "quality_standard \<Rightarrow> ceo_agent \<Rightarrow> work_item \<Rightarrow> event list" where
  "auto_fix_calls_expected qs a w =
     (if qs = NEEDS_IMPROVEMENT \<and> auto_fix_enabled (quality_standards a) = Some True
      then map AutoFixCall (filter auto_fixable (issues w)) else [])"

text \<open>An issue as \<^verbatim>\<open>_review_tests\<close> raises it for a missing unit test.\<close>

definition unit_test_issue :: quality_issue where
  "unit_test_issue = QualityIssue ''missing_test_type'' ''high'' ''Missing unit tests''
     (Some ''tests/test_app.py'') ''Add unit tests'' True"


section \<open>The running mean: specification and implementation\<close>







text \<open>The expression of \<^verbatim>\<open>_update_agent_performance\<close>, in floats, applied to a sequence of
  scores: \<open>tot\<close> reviews are behind, so the new total is \<open>tot + 1\<close> and the old average is
  multiplied by \<open>tot\<close>.\<close>

fun running_average :: "real \<Rightarrow> nat \<Rightarrow> real list \<Rightarrow> real" where
  "running_average old_mean tot [] = old_mean"
| "running_average old_mean tot (score # rest) =
     running_average
       (fdiv (fadd (fmul old_mean (double_of_nat tot)) score) (double_of_nat (tot + 1)))
       (tot + 1) rest"



section \<open>The scan behind findall\<close>

text \<open>Any fuel above the length of the text gives the same count, so the fuel chosen by
  \<open>findall_count\<close> cuts no scan short.\<close>

lemma count_from_fuel:
  "length s < f \<Longrightarrow> length s < g \<Longrightarrow>
     count_from f ic da pat p s = count_from g ic da pat p s"
proof (induction f arbitrary: g p s)
  case 0
  then show ?case by simp
next
  case (Suc f)
  obtain g' where g: "g = Suc g'" using Suc.prems(2) by (cases g) auto
  show ?case
  proof (cases "rx ic da pat p s")
    case None
    show ?thesis
    proof (cases s)
      case Nil
      then show ?thesis using None g by simp
    next
      case (Cons c s')
      then have "count_from f ic da pat (Some c) s' = count_from g' ic da pat (Some c) s'"
        using Suc.prems g by (intro Suc.IH) auto
      then show ?thesis using None g Cons by simp
    qed
  next
    case (Some m)
    obtain q rest ms where m: "m = (q, rest, ms)" by (cases m)
    show ?thesis
    proof (cases "length rest < length s")
      case True
      then have "count_from f ic da pat q rest = count_from g' ic da pat q rest"
        using Suc.prems g by (intro Suc.IH) auto
      then show ?thesis using Some m g True by simp
    next
      case False
      show ?thesis
      proof (cases s)
        case Nil
        then show ?thesis using Some m g False by simp
      next
        case (Cons c s')
        then have "count_from f ic da pat (Some c) s' = count_from g' ic da pat (Some c) s'"
          using Suc.prems g by (intro Suc.IH) auto
        then show ?thesis using Some m g False Cons by simp
      qed
    qed
  qed
qed


section \<open>Rounding to a double\<close>

text \<open>\<open>exponent_of\<close> is the binary exponent, and rounding to a double changes a number by at
  most the fraction \<open>2 ^ - 53\<close> of its size.\<close>

lemma bit_length_1: "bit_length (Suc 0) = Suc 0"
  by (simp add: bit_length.simps [of "Suc 0"] bit_length.simps [of 0])

lemma bit_length_pos: "0 < n \<Longrightarrow> 0 < bit_length n"
  by (simp add: bit_length.simps [of n])

lemma bit_length_bounds:
  "0 < n \<Longrightarrow> 2 ^ (bit_length n - 1) \<le> n \<and> n < 2 ^ bit_length n"
proof (induction n rule: bit_length.induct)
  case (1 n)
  show ?case
  proof (cases "n div 2 = 0")
    case True
    then have "n = Suc 0" using 1(2) by linarith
    then show ?thesis by (simp add: bit_length_1)
  next
    case False
    then have ih: "2 ^ (bit_length (n div 2) - 1) \<le> n div 2" "n div 2 < 2 ^ bit_length (n div 2)"
      using 1 by auto
    have pos: "0 < bit_length (n div 2)"
      using False by (simp add: bit_length_pos)
    have b: "bit_length n = Suc (bit_length (n div 2))"
      using 1(2) by (simp add: bit_length.simps [of n])
    have "(2::nat) ^ bit_length (n div 2) = 2 * 2 ^ (bit_length (n div 2) - 1)"
      using pos by (cases "bit_length (n div 2)") auto
    then have "(2::nat) ^ bit_length (n div 2) \<le> 2 * (n div 2)" using ih(1) by linarith
    then have l: "(2::nat) ^ bit_length (n div 2) \<le> n" by linarith
    have u: "n < 2 * 2 ^ bit_length (n div 2)" using ih(2) by linarith
    show ?thesis using l u b by simp
  qed
qed

lemma pow2_nat: "pow2 (int k) = 2 ^ k" "pow2 (- int k) = 1 / 2 ^ k"
  by (simp_all add: pow2_def)

lemma floor_between_powers:
  assumes "1 \<le> (y::real)" and "m = nat \<lfloor>y\<rfloor>"
  shows "2 ^ (bit_length m - 1) \<le> y \<and> y < 2 ^ bit_length m \<and> 0 < bit_length m"
proof -
  have n: "0 < m" using assms by simp
  have b: "2 ^ (bit_length m - 1) \<le> m" "m < 2 ^ bit_length m"
    using bit_length_bounds [OF n] by simp_all
  have my: "real m \<le> y" "y < real m + 1" using assms by (simp, linarith)
  have "real (2 ^ (bit_length m - 1)) \<le> real m" using b(1) by (rule of_nat_mono)
  then have "(2::real) ^ (bit_length m - 1) \<le> real m" by simp
  then have lo: "2 ^ (bit_length m - 1) \<le> y" using my(1) by linarith
  have "Suc m \<le> 2 ^ bit_length m" using b(2) by simp
  then have "real (Suc m) \<le> real (2 ^ bit_length m)" by (rule of_nat_mono)
  then have "real m + 1 \<le> (2::real) ^ bit_length m" by simp
  then have hi: "y < 2 ^ bit_length m" using my(2) by linarith
  show ?thesis using lo hi bit_length_pos [OF n] by simp
qed

lemma exponent_of_bounds:
  assumes "0 < x"
  shows "pow2 (exponent_of x) \<le> x \<and> x < pow2 (exponent_of x + 1)"
proof (cases "1 \<le> x")
  case True
  define m where "m = nat \<lfloor>x\<rfloor>"
  have f: "2 ^ (bit_length m - 1) \<le> x" "x < 2 ^ bit_length m" "0 < bit_length m"
    using floor_between_powers [OF True m_def] by simp_all
  have e: "exponent_of x = int (bit_length m - 1)"
    using True f(3) by (simp add: exponent_of_def m_def)
  have e1: "exponent_of x + 1 = int (bit_length m)" using e f(3) by simp
  show ?thesis unfolding e1 unfolding e pow2_nat using f by simp
next
  case False
  define m where "m = nat \<lfloor>1 / x\<rfloor>"
  define k where "k = bit_length m - 1"
  have y: "1 \<le> 1 / x" using False assms by simp
  have f: "2 ^ k \<le> 1 / x" "1 / x < 2 ^ bit_length m" "0 < bit_length m"
    using floor_between_powers [OF y m_def] by (simp_all add: k_def)
  have sk: "bit_length m = Suc k" using f(3) by (simp add: k_def)
  have xl: "x \<le> 1 / 2 ^ k"
    using f(1) assms by (simp add: field_simps)
  have xh: "1 / 2 ^ Suc k < x"
    using f(2) assms unfolding sk by (simp add: field_simps)
  have kk: "int (bit_length (nat \<lfloor>1 / x\<rfloor>)) - 1 = int k" using sk by (simp add: m_def)
  show ?thesis
  proof (cases "x * 2 ^ k = 1")
    case True
    then have e: "exponent_of x = - int k"
      using False unfolding exponent_of_def kk by (simp add: pow2_nat Let_def)
    have x: "x = 1 / 2 ^ k" using True by (simp add: field_simps)
    have "pow2 (- int k + 1) = 2 * (1 / 2 ^ k)"
      by (cases k) (simp_all add: pow2_def)
    moreover have "(0::real) < 1 / 2 ^ k" by simp
    ultimately show ?thesis unfolding e pow2_nat using x by linarith
  next
    case ne: False
    then have e: "exponent_of x = - int (Suc k)"
      using False unfolding exponent_of_def kk by (simp add: pow2_nat Let_def)
    have e1: "exponent_of x + 1 = - int k" using e by simp
    have "x \<noteq> 1 / 2 ^ k" using ne by (auto simp: field_simps)
    then have "x < 1 / 2 ^ k" using xl by simp
    then show ?thesis unfolding e1 unfolding e pow2_nat using xh by simp
  qed
qed


lemma pow2_powi: "pow2 e = 2 powi e"
  by (simp add: pow2_def power_int_def inverse_eq_divide power_one_over)

lemma pow2_pos: "0 < pow2 e"
  by (simp add: pow2_powi)

lemma round_half_even_error: "\<bar>real_of_int (round_half_even y) - y\<bar> \<le> 1 / 2"
  by (simp add: round_half_even_def Let_def)

lemma round_double_error: "\<bar>round_double x - x\<bar> \<le> \<bar>x\<bar> / 2 ^ 53"
proof (cases "x = 0")
  case True
  then show ?thesis by (simp add: round_double_def)
next
  case False
  define e where "e = exponent_of \<bar>x\<bar>"
  define u where "u = pow2 (e - 52)"
  define r where "r = real_of_int (round_half_even (\<bar>x\<bar> / u))"
  have u: "0 < u" by (simp add: u_def pow2_pos)
  have rd: "round_double x = sgn x * r * u"
    using False by (simp add: round_double_def Let_def e_def u_def r_def)
  have "\<bar>r - \<bar>x\<bar> / u\<bar> \<le> 1 / 2" unfolding r_def by (rule round_half_even_error)
  then have "\<bar>r - \<bar>x\<bar> / u\<bar> * u \<le> 1 / 2 * u" using u by (simp add: mult_right_mono)
  moreover have "\<bar>r - \<bar>x\<bar> / u\<bar> * u = \<bar>r * u - \<bar>x\<bar>\<bar>"
  proof -
    have "(r - \<bar>x\<bar> / u) * u = r * u - \<bar>x\<bar>" using u by (simp add: field_simps)
    then have "\<bar>r * u - \<bar>x\<bar>\<bar> = \<bar>r - \<bar>x\<bar> / u\<bar> * \<bar>u\<bar>" by (metis abs_mult)
    then show ?thesis using u by simp
  qed
  ultimately have a: "\<bar>r * u - \<bar>x\<bar>\<bar> \<le> u / 2" by simp
  have "sgn x * \<bar>x\<bar> = x" by (simp add: sgn_real_def)
  then have "round_double x - x = sgn x * (r * u - \<bar>x\<bar>)"
    unfolding rd by (simp add: right_diff_distrib mult.assoc)
  moreover have "\<bar>sgn x\<bar> = 1" using False by (simp add: sgn_real_def)
  ultimately have "\<bar>round_double x - x\<bar> = \<bar>r * u - \<bar>x\<bar>\<bar>"
    by (simp add: abs_mult)
  then have b: "\<bar>round_double x - x\<bar> \<le> u / 2" using a by simp
  have "pow2 e \<le> \<bar>x\<bar>" using exponent_of_bounds [of "\<bar>x\<bar>"] False by (simp add: e_def)
  moreover have "u = pow2 e / 2 ^ 52"
    by (simp add: u_def pow2_powi power_int_diff)
  ultimately have "u / 2 \<le> \<bar>x\<bar> / 2 ^ 53" by simp
  then show ?thesis using b by linarith
qed




section \<open>The metric computation always raises\<close>

lemma documentation_completeness_raises:
  "calculate_documentation_completeness c = Inl (NameError ''work_item'')"
  by (simp add: calculate_documentation_completeness_def global_work_item_def)

lemma quality_metrics_raises:
  "calculate_quality_metrics w =
     (Inl (NameError ''work_item''),
      w\<lparr>metrics := (metrics w)\<lparr>code_quality := calculate_code_quality_score (content w),
                                test_coverage := calculate_test_coverage (file_path w)\<rparr>\<rparr>)"
  by (simp add: calculate_quality_metrics_def documentation_completeness_raises Let_def)

lemma review_work_item_raises:
  "review_work_item w =
     (Inl (NameError ''work_item''),
      w\<lparr>metrics := (metrics w)\<lparr>code_quality := calculate_code_quality_score (content w),
                                test_coverage := calculate_test_coverage (file_path w)\<rparr>\<rparr>)"
  by (simp add: review_work_item_def quality_metrics_raises Let_def)

text \<open>
  Claim C2. For every work item the computation of the quality metrics raises: the
  documentation-completeness step looks up the name \<^verbatim>\<open>work_item\<close>, which is bound nowhere.
  So the review pass raises as well, and the pipeline of an agent that uses this engine
  leaves the item in status \<^verbatim>\<open>error\<close>, whatever the state of the agent.
\<close>

theorem C2_metrics_raise_item_error:
  "fst (calculate_quality_metrics w) = Inl (NameError ''work_item'')
   \<and> fst (review_work_item w) = Inl (NameError ''work_item'')
   \<and> status (snd (ceo_review_work_item (a\<lparr>quality_engine := review_work_item\<rparr>) w)) = ''error''"
  by (simp add: quality_metrics_raises review_work_item_raises ceo_review_work_item_def
      review_steps_def emit_def Let_def)

theorem C2_metrics_raise_item_error_witness:
  "fst (calculate_quality_metrics plain_item) = Inl (NameError ''work_item'')
   \<and> fst (review_work_item plain_item) = Inl (NameError ''work_item'')
   \<and> status (snd (ceo_review_work_item shipped_agent plain_item)) = ''error''"
  using C2_metrics_raise_item_error [of plain_item shipped_agent]
  by (simp add: shipped_agent_def CEOQualityControlAgent_def)

section \<open>Classification\<close>




section \<open>What a review pass delivers\<close>

lemma pipeline_when_first_pass_raises:
  assumes "quality_engine a w = (Inl e, w1)"
  shows "ceo_review_work_item a w =
     (a\<lparr>active_reviews := (active_reviews a)(item_id w \<mapsto> w, item_id w1 := None),
        trace := trace a @ [ReviewCall (item_id w)]\<rparr>,
      w1\<lparr>status := ''error''\<rparr>)"
  using assms by (simp add: ceo_review_work_item_def review_steps_def emit_def Let_def)

lemma eval_item_detected:
  "map severity (detect_issues eval_item) = [''high'', ''medium'', ''medium'', ''critical'']"
  by code_simp

lemma plain_item_checks:
  "has_error_handling ''x = 1'' = False" "has_logging ''x = 1'' = False"
  "has_documentation ''x = 1'' = False" "calculate_complexity ''x = 1'' = 1"
  "contains (lower ''src/app.py'') ''test'' = False"
  by code_simp+

text \<open>
  Claim C1, evaluated at a fresh code item whose content is \<^verbatim>\<open>eval(x)\<close>. The pass detects
  four issues, the last of severity \<^verbatim>\<open>critical\<close>, but returns no standard: it raises the
  \<^verbatim>\<open>NameError\<close> of the metric computation, and the pipeline of the shipped agent marks
  the item \<^verbatim>\<open>error\<close>. The item still has its old, empty issue list at that point, so
  \<^verbatim>\<open>_determine_quality_standard\<close> would not see the critical issue either: with an overall
  score of 1.0 it answers \<^verbatim>\<open>excellent\<close> for this item.
\<close>

theorem C1_critical_issue_not_classified:
  "map severity (detect_issues eval_item) = [''high'', ''medium'', ''medium'', ''critical'']
   \<and> fst (review_work_item eval_item) = Inl (NameError ''work_item'')
   \<and> status (snd (ceo_review_work_item shipped_agent eval_item)) = ''error''
   \<and> issues (snd (review_work_item eval_item)) = []
   \<and> determine_quality_standard (scored 1 (snd (review_work_item eval_item))) = EXCELLENT"
proof -
  have "quality_engine shipped_agent eval_item = review_work_item eval_item"
    by (simp add: shipped_agent_def CEOQualityControlAgent_def)
  then have "status (snd (ceo_review_work_item shipped_agent eval_item)) = ''error''"
    by (simp add: pipeline_when_first_pass_raises review_work_item_raises)
  moreover have "issues (snd (review_work_item eval_item)) = []"
    by (simp add: review_work_item_raises eval_item_def WorkItem_def)
  moreover have "determine_quality_standard (scored 1 (snd (review_work_item eval_item))) = EXCELLENT"
    by (simp add: review_work_item_raises eval_item_def WorkItem_def scored_def
        determine_quality_standard_def)
  ultimately show ?thesis
    by (simp add: eval_item_detected review_work_item_raises)
qed

text \<open>\<^verbatim>\<open>calculate_overall_score\<close> itself stores the mean of the six sub-scores, which lies
  in \<open>[0, 1]\<close> when they do.\<close>

lemma calculate_overall_score_mean:
  "overall_score (calculate_overall_score m) =
     (code_quality m + test_coverage m + documentation_completeness m + security_score m
      + performance_score m + architecture_compliance m) / 6"
  by (simp add: calculate_overall_score_def)

lemma calculate_overall_score_bounds:
  assumes "0 \<le> code_quality m" "code_quality m \<le> 1" "0 \<le> test_coverage m" "test_coverage m \<le> 1"
    "0 \<le> documentation_completeness m" "documentation_completeness m \<le> 1"
    "0 \<le> security_score m" "security_score m \<le> 1"
    "0 \<le> performance_score m" "performance_score m \<le> 1"
    "0 \<le> architecture_compliance m" "architecture_compliance m \<le> 1"
  shows "0 \<le> overall_score (calculate_overall_score m) \<and> overall_score (calculate_overall_score m) \<le> 1"
  using assms by (simp add: calculate_overall_score_mean)

text \<open>\<^verbatim>\<open>_calculate_quality_metrics\<close> never reaches that call: the overall score of the item
  is the one it had before, whatever the two sub-scores assigned before the exception.\<close>

lemma overall_score_not_recomputed:
  "overall_score (metrics (snd (calculate_quality_metrics w))) = overall_score (metrics w)
   \<and> test_coverage (metrics (snd (calculate_quality_metrics w))) \<ge> 0.7"
  by (simp add: quality_metrics_raises calculate_test_coverage_def)

text \<open>
  Claim C6, evaluated at a fresh code item whose content is \<^verbatim>\<open>x = 1\<close>. After the metric
  computation (which raises) the item has code quality 0.6, test coverage 0.7, the other
  four sub-scores at their default 0 and the overall score still 0, while the mean of the
  six sub-scores is 13/60.
\<close>

theorem C6_overall_score_left_stale:
  "fst (calculate_quality_metrics plain_item) = Inl (NameError ''work_item'')
   \<and> metrics (snd (calculate_quality_metrics plain_item)) =
       \<lparr>code_quality = 0.6, test_coverage = 0.7, documentation_completeness = 0,
        security_score = 0, performance_score = 0, architecture_compliance = 0,
        overall_score = 0\<rparr>
   \<and> overall_score (calculate_overall_score (metrics (snd (calculate_quality_metrics plain_item))))
       = 13 / 60"
  by (simp add: quality_metrics_raises plain_item_def WorkItem_def default_metrics_def
      calculate_code_quality_score_def calculate_test_coverage_def plain_item_checks
      calculate_overall_score_def)

section \<open>Revision handling\<close>

lemma send_for_revision_item:
  "snd (snd (send_for_revision a w)) =
     w\<lparr>status := ''needs_revision'', revision_count := revision_count w + 1\<rparr>"
  by (simp add: send_for_revision_def Let_def escalate_to_ceo_def split: sum.splits)

lemma send_for_revision_trace:
  "trace (fst (snd (send_for_revision a w))) =
     trace a @
     (case min_overall_score (quality_standards a) of
        None \<Rightarrow> []
      | Some m \<Rightarrow>
          RevisionNotice (agent_name w)
            \<lparr>ri_file_path = file_path w, ri_metrics = metrics w, ri_issues = issues w,
             ri_requirements = requirements w, ri_min_overall_score = m,
             ri_revision_count = revision_count w + 1, ri_max_revisions = max_revisions w\<rparr>
          # (if revision_count w + 1 \<ge> max_revisions w
             then [EscalationStored (item_id w)
                     \<lparr>cr_file_path = file_path w, cr_agent_name = agent_name w,
                      cr_project_name = project_name w, cr_revision_count = revision_count w + 1,
                      cr_overall_score = overall_score (metrics w), cr_issues = issues w\<rparr>,
                   CeoDashboardUpdated (file_path w)]
             else []))"
  by (simp add: send_for_revision_def Let_def escalate_to_ceo_def emit_def
      generate_revision_instructions_def split: option.splits)

text \<open>
  Claim C3 as stated fails. Revision handling of an item at 2 of 3 revisions raises the count
  to 3, the limit, and leaves the status \<^verbatim>\<open>needs_revision\<close>, not \<^verbatim>\<open>escalated\<close>; handling the
  same item once more raises the count to 4, above the limit.
\<close>

theorem C3_counterexample:
  "revision_count (snd (snd (send_for_revision shipped_agent (revised 2 3 plain_item)))) = 3
   \<and> max_revisions (snd (snd (send_for_revision shipped_agent (revised 2 3 plain_item)))) = 3
   \<and> status (snd (snd (send_for_revision shipped_agent (revised 2 3 plain_item)))) = ''needs_revision''
   \<and> status (snd (snd (send_for_revision shipped_agent (revised 2 3 plain_item)))) \<noteq> ''escalated''
   \<and> revision_count (snd (snd (send_for_revision shipped_agent (revised 3 3 plain_item)))) = 4
   \<and> max_revisions (snd (snd (send_for_revision shipped_agent (revised 3 3 plain_item)))) = 3"
  by (simp add: send_for_revision_item revised_def)

text \<open>
  Claim C3, amended. Every revision handling sets the status \<^verbatim>\<open>needs_revision\<close> and raises
  the revision count by exactly one, with no cap at the limit, which it leaves as it is. One
  escalation report is stored when the raised count is at or above the limit and the
  revision instructions could be built; none otherwise. The status stays
  \<^verbatim>\<open>needs_revision\<close> in both cases.
\<close>

theorem C3_revision_count_and_status:
  "status (snd (snd (send_for_revision a w))) = ''needs_revision''
   \<and> revision_count (snd (snd (send_for_revision a w))) = revision_count w + 1
   \<and> max_revisions (snd (snd (send_for_revision a w))) = max_revisions w
   \<and> length (filter is_escalation
        (drop (length (trace a)) (trace (fst (snd (send_for_revision a w))))))
       = (if min_overall_score (quality_standards a) \<noteq> None
             \<and> revision_count w + 1 \<ge> max_revisions w then 1 else 0)"
  by (simp add: send_for_revision_item send_for_revision_trace split: option.splits)

theorem C3_revision_count_and_status_witness:
  "status (snd (snd (send_for_revision shipped_agent (revised 1 3 plain_item)))) = ''needs_revision''
   \<and> revision_count (snd (snd (send_for_revision shipped_agent (revised 1 3 plain_item)))) = 2
   \<and> max_revisions (snd (snd (send_for_revision shipped_agent (revised 1 3 plain_item)))) = 3
   \<and> length (filter is_escalation
        (trace (fst (snd (send_for_revision shipped_agent (revised 1 3 plain_item)))))) = 0
   \<and> length (filter is_escalation
        (trace (fst (snd (send_for_revision shipped_agent (revised 2 3 plain_item)))))) = 1"
  using C3_revision_count_and_status [of shipped_agent "revised 1 3 plain_item"]
    C3_revision_count_and_status [of shipped_agent "revised 2 3 plain_item"]
  by (simp add: shipped_agent_def CEOQualityControlAgent_def default_quality_standards_def
      revised_def)

text \<open>
  Claim C4 as stated fails. On the submission that raises the count from 2 to the limit 3 the
  agent is sent a revision notice, and the escalation report is stored as well.
\<close>

theorem C4_counterexample:
  "length (filter is_revision_notice
      (trace (fst (snd (send_for_revision shipped_agent (revised 2 3 plain_item)))))) = 1
   \<and> length (filter is_escalation
      (trace (fst (snd (send_for_revision shipped_agent (revised 2 3 plain_item)))))) = 1"
  by (simp add: send_for_revision_trace shipped_agent_def CEOQualityControlAgent_def
      default_quality_standards_def revised_def)

text \<open>
  Claim C4, amended. Every revision handling whose instructions can be built (the
  configuration section has \<^verbatim>\<open>min_overall_score\<close>) sends exactly one revision notice. When
  the raised count is at or above the limit it stores exactly one escalation report in
  addition to the notice; on an earlier submission it stores none. Without
  \<^verbatim>\<open>min_overall_score\<close> it sends and stores nothing.
\<close>

theorem C4_notice_and_escalation:
  "length (filter is_revision_notice
      (drop (length (trace a)) (trace (fst (snd (send_for_revision a w))))))
     = (if min_overall_score (quality_standards a) = None then 0 else 1)
   \<and> length (filter is_escalation
      (drop (length (trace a)) (trace (fst (snd (send_for_revision a w))))))
     = (if min_overall_score (quality_standards a) = None then 0
        else if revision_count w + 1 \<ge> max_revisions w then 1 else 0)"
  by (simp add: send_for_revision_trace split: option.splits)

theorem C4_notice_and_escalation_witness:
  "length (filter is_revision_notice
      (trace (fst (snd (send_for_revision shipped_agent (revised 0 3 plain_item)))))) = 1
   \<and> length (filter is_escalation
      (trace (fst (snd (send_for_revision shipped_agent (revised 0 3 plain_item)))))) = 0
   \<and> length (filter is_revision_notice
      (trace (fst (snd (send_for_revision shipped_agent (revised 2 3 plain_item)))))) = 1
   \<and> length (filter is_escalation
      (trace (fst (snd (send_for_revision shipped_agent (revised 2 3 plain_item)))))) = 1"
  using C4_notice_and_escalation [of shipped_agent "revised 0 3 plain_item"]
    C4_notice_and_escalation [of shipped_agent "revised 2 3 plain_item"]
  by (simp add: shipped_agent_def CEOQualityControlAgent_def default_quality_standards_def
      revised_def)

section \<open>The running mean of an agent's scores\<close>












text \<open>Seven reviews with the score 0.6 store an average below the double 0.6, which the
  sweep for underperforming agents compares with 0.6.\<close>

lemma seven_scores_below_threshold:
  "running_average 0 0 (replicate 7 (round_double 0.6)) = 2702159776422297 / 2 ^ 52
   \<and> round_double 0.6 = 5404319552844595 / 2 ^ 53"
  by code_simp




section \<open>The pipeline: auto-fix calls and review calls\<close>

lemma auto_fix_loop_calls:
  "filter is_auto_fix_call (trace (fst (snd (auto_fix_loop is n a w)))) =
     filter is_auto_fix_call (trace a) @ map AutoFixCall (filter auto_fixable is)
   \<and> filter is_review_call (trace (fst (snd (auto_fix_loop is n a w)))) =
       filter is_review_call (trace a)
   \<and> quality_engine (fst (snd (auto_fix_loop is n a w))) = quality_engine a
   \<and> quality_standards (fst (snd (auto_fix_loop is n a w))) = quality_standards a"
proof (induction "is" arbitrary: n a w)
  case Nil
  show ?case by simp
next
  case (Cons i "is")
  show ?case
  proof (cases "auto_fixable i")
    case False
    then show ?thesis using Cons.IH [of n a w] by simp
  next
    case True
    obtain ok w1 where r: "auto_fix_issue w i = (ok, w1)" by (cases "auto_fix_issue w i")
    show ?thesis
    proof (cases ok)
      case True
      then show ?thesis
        using \<open>auto_fixable i\<close> r
          Cons.IH [of "n + 1" "(emit (AutoFixCall i) a)\<lparr>dashboard_data :=
             (dashboard_data (emit (AutoFixCall i) a))\<lparr>auto_fixes :=
               auto_fixes (dashboard_data (emit (AutoFixCall i) a)) + 1\<rparr>\<rparr>" w1]
        by (simp add: Let_def emit_def)
    next
      case False
      then show ?thesis
        using \<open>auto_fixable i\<close> r Cons.IH [of n "emit (AutoFixCall i) a" w1]
        by (simp add: Let_def emit_def)
    qed
  qed
qed

lemma attempt_auto_fixes_calls:
  "filter is_auto_fix_call (trace (fst (snd (attempt_auto_fixes a w)))) =
     filter is_auto_fix_call (trace a) @ map AutoFixCall (filter auto_fixable (issues w))
   \<and> filter is_review_call (trace (fst (snd (attempt_auto_fixes a w)))) =
       filter is_review_call (trace a)
   \<and> quality_engine (fst (snd (attempt_auto_fixes a w))) = quality_engine a
   \<and> quality_standards (fst (snd (attempt_auto_fixes a w))) = quality_standards a"
proof -
  obtain n a1 w1 where r: "auto_fix_loop (issues w) 0 a w = (n, a1, w1)"
    by (cases "auto_fix_loop (issues w) 0 a w") auto
  show ?thesis
    using auto_fix_loop_calls [of "issues w" 0 a w] r
    by (simp add: attempt_auto_fixes_def emit_def)
qed

lemma send_for_revision_calls:
  "filter is_auto_fix_call (trace (fst (snd (send_for_revision a w)))) =
     filter is_auto_fix_call (trace a)
   \<and> filter is_review_call (trace (fst (snd (send_for_revision a w)))) =
       filter is_review_call (trace a)"
  by (simp add: send_for_revision_trace split: option.splits)

lemma approve_trace: "trace (fst (snd (approve a w))) = trace a"
  by (simp add: approve_def)

lemma decide_calls:
  "filter is_auto_fix_call (trace (fst (snd (decide qs a w)))) =
     filter is_auto_fix_call (trace a) @ auto_fix_calls_expected qs a w
   \<and> length (filter is_review_call (trace (fst (snd (decide qs a w)))))
       \<le> length (filter is_review_call (trace a)) + 1"
proof (cases "qs = NEEDS_IMPROVEMENT \<and> auto_fix_enabled (quality_standards a) = Some True")
  case False
  then show ?thesis
    by (cases qs; cases "auto_fix_enabled (quality_standards a)")
       (auto simp: decide_def approve_trace send_for_revision_calls auto_fix_calls_expected_def)
next
  case True
  obtain n a1 w1 where r: "attempt_auto_fixes a w = (n, a1, w1)"
    by (cases "attempt_auto_fixes a w") auto
  have c: "filter is_auto_fix_call (trace a1) =
       filter is_auto_fix_call (trace a) @ map AutoFixCall (filter auto_fixable (issues w))"
    "filter is_review_call (trace a1) = filter is_review_call (trace a)"
    using attempt_auto_fixes_calls [of a w] r by simp_all
  show ?thesis
  proof (cases "n > 0")
    case False
    then show ?thesis using True r c
      by (simp add: decide_def send_for_revision_calls auto_fix_calls_expected_def)
  next
    case pos: True
    obtain res w2 where e: "quality_engine (emit (ReviewCall (item_id w1)) a1) w1 = (res, w2)"
      by (cases "quality_engine (emit (ReviewCall (item_id w1)) a1) w1")
    show ?thesis
    proof (cases res)
      case (Inl x)
      then show ?thesis using True r c pos e
        by (simp add: decide_def auto_fix_calls_expected_def Let_def emit_def)
    next
      case (Inr p)
      obtain qs2 found2 where p: "p = (qs2, found2)" by (cases p)
      show ?thesis using True r c pos e Inr p
        by (simp add: decide_def auto_fix_calls_expected_def Let_def approve_trace
            send_for_revision_calls) (simp add: emit_def)
    qed
  qed
qed

lemma pipeline_trace:
  "trace (fst (ceo_review_work_item a w)) = trace (fst (snd (review_steps a w)))"
  by (cases "review_steps a w") (simp add: ceo_review_work_item_def Let_def split: sum.splits)

lemma review_steps_calls:
  assumes "quality_engine a w = (r, w1)"
  shows "filter is_auto_fix_call (trace (fst (snd (review_steps a w)))) =
           filter is_auto_fix_call (trace a) @
           (case r of Inl e \<Rightarrow> []
            | Inr (qs, found) \<Rightarrow>
                if qs = NEEDS_IMPROVEMENT \<and> auto_fix_enabled (quality_standards a) = Some True
                then map AutoFixCall (filter auto_fixable found) else [])
         \<and> length (filter is_review_call (trace (fst (snd (review_steps a w)))))
             \<le> length (filter is_review_call (trace a)) + 2"
proof (cases r)
  case (Inl e)
  then show ?thesis using assms by (simp add: review_steps_def emit_def Let_def)
next
  case (Inr p)
  obtain qs found where p: "p = (qs, found)" by (cases p)
  let ?a2 = "(emit (ReviewCall (item_id w))
       (a\<lparr>active_reviews := (active_reviews a)(item_id w \<mapsto> w)\<rparr>))
       \<lparr>dashboard_data := (dashboard_data a)\<lparr>total_reviews := total_reviews (dashboard_data a) + 1\<rparr>\<rparr>"
  let ?w2 = "w1\<lparr>issues := found\<rparr>"
  obtain r3 a3 w3 where d: "decide qs ?a2 ?w2 = (r3, a3, w3)"
    by (cases "decide qs ?a2 ?w2") auto
  have c: "filter is_auto_fix_call (trace a3) =
       filter is_auto_fix_call (trace ?a2) @ auto_fix_calls_expected qs ?a2 ?w2"
    "length (filter is_review_call (trace a3)) \<le> length (filter is_review_call (trace ?a2)) + 1"
    using decide_calls [of qs ?a2 ?w2] d by simp_all
  have s: "review_steps a w =
     (case r3 of Inl e \<Rightarrow> (Inl e, a3, w3)
      | Inr u \<Rightarrow> (Inr (), update_agent_performance (emit (ReviewStored w3) a3) w3, w3))"
    using assms Inr p d by (simp add: review_steps_def Let_def emit_def split: sum.splits)
  have t: "trace (fst (snd (review_steps a w))) = trace a3 \<or>
           trace (fst (snd (review_steps a w))) = trace a3 @ [ReviewStored w3]"
    unfolding s by (cases r3) (simp_all add: update_agent_performance_def Let_def emit_def)
  show ?thesis using t c Inr p
    by (auto simp: auto_fix_calls_expected_def emit_def)
qed


text \<open>
  Claim C10. Let the first review pass of a submission return \<open>r\<close>. If \<open>r\<close> is the standard
  \<^verbatim>\<open>unacceptable\<close>, the run hands no issue to the auto-fix engine. If the run hands any issue
  to the auto-fix engine, then \<open>r\<close> is the standard \<^verbatim>\<open>needs_improvement\<close> and auto-fix is
  enabled; in that case the calls are exactly one per auto-fixable issue of the first pass.
  The run calls the review engine at most twice: the first pass and at most one re-review.
\<close>

theorem C10_auto_fix_only_after_needs_improvement:
  assumes "quality_engine a w = (r, w1)"
  shows "(\<forall>found. r = Inr (UNACCEPTABLE, found) \<longrightarrow>
            filter is_auto_fix_call (trace (fst (ceo_review_work_item a w)))
              = filter is_auto_fix_call (trace a))
         \<and> (filter is_auto_fix_call (trace (fst (ceo_review_work_item a w)))
              \<noteq> filter is_auto_fix_call (trace a) \<longrightarrow>
              (\<exists>found. r = Inr (NEEDS_IMPROVEMENT, found))
              \<and> auto_fix_enabled (quality_standards a) = Some True)
         \<and> (\<forall>found. r = Inr (NEEDS_IMPROVEMENT, found)
              \<and> auto_fix_enabled (quality_standards a) = Some True \<longrightarrow>
              filter is_auto_fix_call (trace (fst (ceo_review_work_item a w)))
                = filter is_auto_fix_call (trace a) @ map AutoFixCall (filter auto_fixable found))
         \<and> length (filter is_review_call (trace (fst (ceo_review_work_item a w))))
              \<le> length (filter is_review_call (trace a)) + 2"
  using review_steps_calls [OF assms]
  by (auto simp: pipeline_trace split: sum.splits if_splits)

text \<open>An engine that always answers \<^verbatim>\<open>unacceptable\<close> leads to no auto-fix call; one that
  always answers \<^verbatim>\<open>needs_improvement\<close> with one auto-fixable issue leads to one call and at
  most two review calls.\<close>

theorem C10_auto_fix_only_after_needs_improvement_witness:
  "filter is_auto_fix_call
     (trace (fst (ceo_review_work_item
        (shipped_agent\<lparr>quality_engine := constant_engine UNACCEPTABLE [overview_issue]\<rparr>) doc_item))) = []
   \<and> filter is_auto_fix_call
     (trace (fst (ceo_review_work_item
        (shipped_agent\<lparr>quality_engine := constant_engine NEEDS_IMPROVEMENT [overview_issue]\<rparr>) doc_item)))
       = [AutoFixCall overview_issue]
   \<and> length (filter is_review_call
     (trace (fst (ceo_review_work_item
        (shipped_agent\<lparr>quality_engine := constant_engine NEEDS_IMPROVEMENT [overview_issue]\<rparr>) doc_item))))
       \<le> 2"
proof -
  let ?u = "shipped_agent\<lparr>quality_engine := constant_engine UNACCEPTABLE [overview_issue]\<rparr>"
  let ?n = "shipped_agent\<lparr>quality_engine := constant_engine NEEDS_IMPROVEMENT [overview_issue]\<rparr>"
  have u: "quality_engine ?u doc_item = (Inr (UNACCEPTABLE, [overview_issue]), doc_item)"
    by (simp add: constant_engine_def)
  have n: "quality_engine ?n doc_item = (Inr (NEEDS_IMPROVEMENT, [overview_issue]), doc_item)"
    by (simp add: constant_engine_def)
  have t: "trace ?u = []" "trace ?n = []" "auto_fix_enabled (quality_standards ?n) = Some True"
    by (simp_all add: shipped_agent_def CEOQualityControlAgent_def default_quality_standards_def)
  have f: "auto_fixable overview_issue"
    by (simp add: overview_issue_def QualityIssue_def)
  show ?thesis
    using C10_auto_fix_only_after_needs_improvement [OF u]
      C10_auto_fix_only_after_needs_improvement [OF n] t f
    by simp
qed


section \<open>An item whose review raises\<close>

text \<open>
  Claim C8. The agent is built with its own review engine, and that engine raises in the
  first review pass of every item, before anything is counted; no later step of
  the pipeline is reached. So for every state of such an agent and every item, the steps
  of the pipeline raise, the status of the item is set to \<^verbatim>\<open>error\<close>, the item is removed
  from the active reviews (the other entries stay as they were), and the dashboard with its
  total, passed and failed review counts and the agent performance records are exactly as
  they were before the item was processed.
\<close>

theorem C8_error_leaves_counters:
  "fst (review_steps (a\<lparr>quality_engine := review_work_item\<rparr>) w) = Inl (NameError ''work_item'')
   \<and> status (snd (ceo_review_work_item (a\<lparr>quality_engine := review_work_item\<rparr>) w)) = ''error''
   \<and> active_reviews (fst (ceo_review_work_item (a\<lparr>quality_engine := review_work_item\<rparr>) w))
       = (active_reviews a)(item_id w := None)
   \<and> dashboard_data (fst (ceo_review_work_item (a\<lparr>quality_engine := review_work_item\<rparr>) w))
       = dashboard_data a
   \<and> agent_performance (fst (ceo_review_work_item (a\<lparr>quality_engine := review_work_item\<rparr>) w))
       = agent_performance a"
proof -
  let ?a = "a\<lparr>quality_engine := review_work_item\<rparr>"
  have q: "quality_engine ?a w =
     (Inl (NameError ''work_item''),
      w\<lparr>metrics := (metrics w)\<lparr>code_quality := calculate_code_quality_score (content w),
                                test_coverage := calculate_test_coverage (file_path w)\<rparr>\<rparr>)"
    by (simp add: review_work_item_raises)
  have s: "fst (review_steps ?a w) = Inl (NameError ''work_item'')"
    by (simp add: review_steps_def review_work_item_raises Let_def emit_def)
  show ?thesis
    unfolding pipeline_when_first_pass_raises [OF q] using s by simp
qed

text \<open>The shipped agent on a fresh item: the review raises, the item ends in \<^verbatim>\<open>error\<close>, no
  review is active and nothing is counted.\<close>

theorem C8_error_leaves_counters_witness:
  "fst (review_steps shipped_agent plain_item) = Inl (NameError ''work_item'')
   \<and> status (snd (ceo_review_work_item shipped_agent plain_item)) = ''error''
   \<and> active_reviews (fst (ceo_review_work_item shipped_agent plain_item)) = Map.empty
   \<and> dashboard_data (fst (ceo_review_work_item shipped_agent plain_item))
       = \<lparr>total_reviews = 0, passed_reviews = 0, failed_reviews = 0, auto_fixes = 0,
          agent_scores = Map.empty\<rparr>
   \<and> agent_performance (fst (ceo_review_work_item shipped_agent plain_item)) = Map.empty"
proof -
  have e: "shipped_agent\<lparr>quality_engine := review_work_item\<rparr> = shipped_agent"
    by (simp add: shipped_agent_def CEOQualityControlAgent_def)
  show ?thesis
    using C8_error_leaves_counters [of shipped_agent plain_item] unfolding e
    by (simp add: shipped_agent_def CEOQualityControlAgent_def)
qed

section \<open>Applying a transformer twice\<close>

lemma startswith_iff: "startswith s p = (\<exists>b. s = p @ b)"
proof
  assume "startswith s p"
  then have "s = p @ drop (length p) s"
    by (metis append_take_drop_id startswith_def)
  then show "\<exists>b. s = p @ b" ..
next
  assume "\<exists>b. s = p @ b"
  then show "startswith s p" by (auto simp: startswith_def)
qed

lemma contains_iff: "contains s p = (\<exists>a b. s = a @ p @ b)"
proof (induction s)
  case Nil
  show ?case by auto
next
  case (Cons c s)
  show ?case
  proof
    assume "contains (c # s) p"
    then consider "startswith (c # s) p" | "contains s p" by auto
    then show "\<exists>a b. c # s = a @ p @ b"
    proof cases
      case 1
      then obtain b where "c # s = p @ b" by (auto simp: startswith_iff)
      then have "c # s = [] @ p @ b" by simp
      then show ?thesis by blast
    next
      case 2
      then obtain a b where "s = a @ p @ b" using Cons.IH by auto
      then have "c # s = (c # a) @ p @ b" by simp
      then show ?thesis by blast
    qed
  next
    assume "\<exists>a b. c # s = a @ p @ b"
    then obtain a b where e: "c # s = a @ p @ b" by auto
    show "contains (c # s) p"
    proof (cases a)
      case Nil
      then have "startswith (c # s) p" using e by (auto simp: startswith_iff)
      then show ?thesis by simp
    next
      case (Cons x a')
      then have "s = a' @ p @ b" using e by simp
      then have "contains s p" using Cons.IH by auto
      then show ?thesis by simp
    qed
  qed
qed

lemma join_lines_Cons: "ls \<noteq> [] \<Longrightarrow> join_lines (l # ls) = l @ CHR 0x0A # join_lines ls"
  by (cases ls) simp_all

lemma join_lines_has_line: "l \<in> set ls \<Longrightarrow> \<exists>a b. join_lines ls = a @ l @ b"
proof (induction ls)
  case Nil
  then show ?case by simp
next
  case (Cons x ls)
  show ?case
  proof (cases "ls = []")
    case True
    then have "join_lines (x # ls) = [] @ l @ []" using Cons.prems by simp
    then show ?thesis by blast
  next
    case False
    then have j: "join_lines (x # ls) = x @ CHR 0x0A # join_lines ls" by (rule join_lines_Cons)
    show ?thesis
    proof (cases "l = x")
      case True
      then have "join_lines (x # ls) = [] @ l @ (CHR 0x0A # join_lines ls)" using j by simp
      then show ?thesis by blast
    next
      case False
      then have "l \<in> set ls" using Cons.prems by simp
      then obtain a b where "join_lines ls = a @ l @ b" using Cons.IH by auto
      then have "join_lines (x # ls) = (x @ CHR 0x0A # a) @ l @ b" using j by simp
      then show ?thesis by blast
    qed
  qed
qed

lemma contains_line: "l \<in> set ls \<Longrightarrow> contains l p \<Longrightarrow> contains (join_lines ls) p"
proof -
  assume "l \<in> set ls" and "contains l p"
  then obtain a b a' b' where "join_lines ls = a @ l @ b" and "l = a' @ p @ b'"
    using join_lines_has_line contains_iff by metis
  then have "join_lines ls = (a @ a') @ p @ (b' @ b)" by simp
  then show ?thesis unfolding contains_iff by blast
qed

lemma fix_missing_logging_has_import:
  "contains (fix_missing_logging c i) ''import logging''"
proof (cases "contains c ''import logging''")
  case True
  then show ?thesis by (simp add: fix_missing_logging_def)
next
  case False
  have "contains ''import logging'' ''import logging''"
    unfolding contains_iff by (rule exI [of _ "[]"], rule exI [of _ "[]"]) simp
  then show ?thesis using False
    by (simp add: fix_missing_logging_def Let_def contains_line [of "''import logging''"])
qed

lemma fix_missing_logging_idempotent:
  "fix_missing_logging (fix_missing_logging c i) j = fix_missing_logging c i"
  using fix_missing_logging_has_import [of c i]
  by (simp add: fix_missing_logging_def [of "fix_missing_logging c i"])

lemma fix_missing_section_cases:
  "fix_missing_section c i = c \<or> (\<exists>t. \<forall>d. fix_missing_section d i = d @ nl @ t)"
  by (cases "section_of (description i)") (auto simp: fix_missing_section_def Let_def)

lemma fix_missing_section_again:
  assumes "section_of (description i) \<noteq> None"
  shows "fix_missing_section (fix_missing_section c i) i \<noteq> fix_missing_section c i"
proof -
  obtain s where s: "section_of (description i) = Some s" using assms by auto
  then obtain t where t: "\<And>d. fix_missing_section d i = d @ nl @ t"
    by (auto simp: fix_missing_section_def Let_def)
  have "length (fix_missing_section (fix_missing_section c i) i) > length (fix_missing_section c i)"
    by (simp add: t [of "fix_missing_section c i"] nl_def)
  then show ?thesis by auto
qed

lemma fix_missing_test_type_again:
  assumes "test_type_of (description i) \<noteq> None"
  shows "fix_missing_test_type (fix_missing_test_type c i) i \<noteq> fix_missing_test_type c i"
proof -
  obtain s where s: "test_type_of (description i) = Some s" using assms by auto
  then obtain t where t: "\<And>d. fix_missing_test_type d i = d @ nl @ t"
    by (auto simp: fix_missing_test_type_def Let_def)
  have "length (fix_missing_test_type (fix_missing_test_type c i) i) > length (fix_missing_test_type c i)"
    by (simp add: t [of "fix_missing_test_type c i"] nl_def)
  then show ?thesis by auto
qed


lemma split_lines_not_Nil: "split_lines c \<noteq> []"
  by (induction c) (auto split: list.splits)

lemma split_lines_no_newline: "l \<in> set (split_lines c) \<Longrightarrow> CHR 0x0A \<notin> set l"
proof (induction c arbitrary: l)
  case Nil
  then show ?case by simp
next
  case (Cons x c)
  then show ?case
    by (cases "split_lines c") (auto split: if_splits)
qed

lemma join_split_lines: "join_lines (split_lines c) = c"
proof (induction c)
  case Nil
  show ?case by simp
next
  case (Cons x c)
  show ?case
  proof (cases "x = CHR 0x0A")
    case True
    then show ?thesis using Cons split_lines_not_Nil [of c] by (simp add: join_lines_Cons)
  next
    case False
    obtain l ls where s: "split_lines c = l # ls"
      using split_lines_not_Nil [of c] by (cases "split_lines c") auto
    show ?thesis
    proof (cases "ls = []")
      case True
      then show ?thesis using False s Cons by simp
    next
      case ne: False
      then show ?thesis using False s Cons by (simp add: join_lines_Cons)
    qed
  qed
qed

lemma split_lines_plain: "CHR 0x0A \<notin> set l \<Longrightarrow> split_lines l = [l]"
  by (induction l) auto

lemma split_lines_append:
  "CHR 0x0A \<notin> set l \<Longrightarrow> split_lines (l @ CHR 0x0A # r) = l # split_lines r"
  by (induction l) auto

lemma split_join_lines:
  "ls \<noteq> [] \<Longrightarrow> \<forall>l \<in> set ls. CHR 0x0A \<notin> set l \<Longrightarrow> split_lines (join_lines ls) = ls"
proof (induction ls)
  case Nil
  then show ?case by simp
next
  case (Cons l ls)
  show ?case
  proof (cases "ls = []")
    case True
    then show ?thesis using Cons.prems by (simp add: split_lines_plain)
  next
    case False
    then show ?thesis using Cons
      by (simp add: join_lines_Cons split_lines_append)
  qed
qed

lemma add_docstrings_length:
  "length (add_docstrings ls) = length ls + 3 * length (filter is_def_line ls)"
  by (induction ls) auto

lemma add_docstrings_no_def: "filter is_def_line ls = [] \<Longrightarrow> add_docstrings ls = ls"
  by (induction ls) (auto split: if_splits)

lemma add_docstrings_keeps: "l \<in> set ls \<Longrightarrow> l \<in> set (add_docstrings ls)"
  by (induction ls) auto

lemma spaces_no_newline: "CHR 0x0A \<notin> set (spaces n)"
  by (simp add: spaces_def)

lemma add_docstrings_no_newline:
  "\<forall>l \<in> set ls. CHR 0x0A \<notin> set l \<Longrightarrow> \<forall>l \<in> set (add_docstrings ls). CHR 0x0A \<notin> set l"
  by (induction ls) (auto simp: spaces_no_newline dq_def)

lemma contains_in_line:
  assumes "contains (join_lines ls) p" and "CHR 0x0A \<notin> set p" and "p \<noteq> []"
  shows "\<exists>l \<in> set ls. contains l p"
  using assms
proof (induction ls)
  case Nil
  then show ?case by simp
next
  case (Cons l ls)
  show ?case
  proof (cases "ls = []")
    case True
    then show ?thesis using Cons.prems by simp
  next
    case False
    then have j: "join_lines (l # ls) = l @ CHR 0x0A # join_lines ls" by (rule join_lines_Cons)
    obtain a b where e: "l @ CHR 0x0A # join_lines ls = a @ p @ b"
      using Cons.prems(1) j unfolding contains_iff by auto
    show ?thesis
    proof (cases "length a + length p \<le> length l")
      case True
      then have "take (length a + length p) (l @ CHR 0x0A # join_lines ls) = take (length a + length p) l"
        by simp
      moreover have "take (length a + length p) (a @ p @ b) = a @ p" by simp
      ultimately have "l = (a @ p) @ drop (length a + length p) l"
        using e by (metis append_take_drop_id)
      then have "contains l p" unfolding contains_iff by (metis append.assoc)
      then show ?thesis by auto
    next
      case False
      have "length l < length a"
      proof (rule ccontr)
        assume "\<not> length l < length a"
        then have k: "length a \<le> length l" "length l - length a < length p"
          using False by auto
        have "(a @ p @ b) ! length l = p ! (length l - length a)"
          using k by (simp add: nth_append)
        moreover have "(l @ CHR 0x0A # join_lines ls) ! length l = CHR 0x0A" by simp
        ultimately have "p ! (length l - length a) = CHR 0x0A" using e by simp
        then show False using Cons.prems(2) k(2) by (metis nth_mem)
      qed
      then have "drop (Suc (length l)) (a @ p @ b) = drop (Suc (length l)) a @ p @ b" by simp
      moreover have "drop (Suc (length l)) (l @ CHR 0x0A # join_lines ls) = join_lines ls" by simp
      ultimately have "join_lines ls = drop (Suc (length l)) a @ p @ b" using e by simp
      then have "contains (join_lines ls) p" unfolding contains_iff by blast
      then show ?thesis using Cons.IH Cons.prems(2,3) by auto
    qed
  qed
qed

lemma fix_missing_documentation_again:
  assumes "fix_missing_documentation c i \<noteq> c"
  shows "fix_missing_documentation (fix_missing_documentation c i) j \<noteq> fix_missing_documentation c i"
proof -
  let ?L = "split_lines c"
  let ?A = "add_docstrings ?L"
  have d: "contains c ''def ''"
  proof (rule ccontr)
    assume "\<not> contains c ''def ''"
    then have "fix_missing_documentation c i = c" by (simp add: fix_missing_documentation_def)
    then show False using assms by simp
  qed
  then have f: "fix_missing_documentation c i = join_lines ?A"
    by (simp add: fix_missing_documentation_def)
  have "?A \<noteq> ?L" using assms f join_split_lines [of c] by auto
  then have df: "filter is_def_line ?L \<noteq> []" using add_docstrings_no_def by blast
  then obtain l where l: "l \<in> set ?L" "is_def_line l"
    by (metis filter_False)
  have la: "l \<in> set ?A" using l(1) by (rule add_docstrings_keeps)
  have ne: "?A \<noteq> []" using la by auto
  have nn: "\<forall>l \<in> set ?A. CHR 0x0A \<notin> set l"
    using add_docstrings_no_newline split_lines_no_newline by blast
  have sp: "split_lines (join_lines ?A) = ?A" using ne nn by (rule split_join_lines)
  obtain m where m: "m \<in> set ?L" "contains m ''def ''"
    using contains_in_line [of ?L "''def ''"] d join_split_lines [of c] by auto
  have "contains (join_lines ?A) ''def ''"
    using contains_line [OF add_docstrings_keeps [OF m(1)] m(2)] .
  then have ff: "fix_missing_documentation (join_lines ?A) j = join_lines (add_docstrings ?A)"
    by (simp add: fix_missing_documentation_def sp)
  have "filter is_def_line ?A \<noteq> []" using la l(2) by (metis filter_empty_conv)
  then have "length (add_docstrings ?A) \<noteq> length ?A" by (simp add: add_docstrings_length)
  then have neq: "add_docstrings ?A \<noteq> ?A" by auto
  have ne2: "add_docstrings ?A \<noteq> []" using ne add_docstrings_keeps [of _ ?A] by fastforce
  have nn2: "\<forall>l \<in> set (add_docstrings ?A). CHR 0x0A \<notin> set l"
    using add_docstrings_no_newline nn by blast
  have "join_lines (add_docstrings ?A) \<noteq> join_lines ?A"
  proof
    assume "join_lines (add_docstrings ?A) = join_lines ?A"
    then have "split_lines (join_lines (add_docstrings ?A)) = split_lines (join_lines ?A)" by simp
    then show False using split_join_lines [OF ne2 nn2] sp neq by simp
  qed
  then show ?thesis using f ff by simp
qed


text \<open>
  Claim C5 as stated fails. On the content \<^verbatim>\<open>def f():\<close> the missing-documentation
  transformer gives four lines, and applied to that output it gives seven: it puts a second
  docstring stub after the \<^verbatim>\<open>def\<close> line. On \<^verbatim>\<open># Guide\<close> the missing-section transformer
  appends the overview template, and applied to that output it appends the template again.
\<close>

theorem C5_counterexample:
  "fix_missing_documentation (fix_missing_documentation ''def f():'' documentation_issue)
       documentation_issue
     \<noteq> fix_missing_documentation ''def f():'' documentation_issue
   \<and> length (split_lines (fix_missing_documentation ''def f():'' documentation_issue)) = 4
   \<and> length (split_lines (fix_missing_documentation
         (fix_missing_documentation ''def f():'' documentation_issue) documentation_issue)) = 7
   \<and> fix_missing_section (fix_missing_section ''# Guide'' overview_issue) overview_issue
     \<noteq> fix_missing_section ''# Guide'' overview_issue
   \<and> length (split_lines (fix_missing_section ''# Guide'' overview_issue)) = 5
   \<and> length (split_lines (fix_missing_section
         (fix_missing_section ''# Guide'' overview_issue) overview_issue)) = 9"
  by code_simp

text \<open>
  Claim C5, amended. The missing-logging transformer is idempotent on every content. The
  missing-section and missing-test-type transformers return the content unchanged when the
  issue description names no section (no test type); when it names one they append their
  template on every application, so a second application changes the output of the first.
  The missing-documentation and missing-error-handling transformers return content without
  \<^verbatim>\<open>def \<close> unchanged; whenever the missing-documentation transformer changes a content,
  a second application changes its output again.
\<close>

theorem C5_transformers_reapplied:
  "fix_missing_logging (fix_missing_logging c i) i = fix_missing_logging c i
   \<and> (section_of (description i) = None \<longrightarrow> fix_missing_section c i = c)
   \<and> (section_of (description i) \<noteq> None \<longrightarrow>
        fix_missing_section (fix_missing_section c i) i \<noteq> fix_missing_section c i)
   \<and> (test_type_of (description i) = None \<longrightarrow> fix_missing_test_type c i = c)
   \<and> (test_type_of (description i) \<noteq> None \<longrightarrow>
        fix_missing_test_type (fix_missing_test_type c i) i \<noteq> fix_missing_test_type c i)
   \<and> (\<not> contains c ''def '' \<longrightarrow>
        fix_missing_documentation c i = c \<and> fix_missing_error_handling c i = c)
   \<and> (fix_missing_documentation c i \<noteq> c \<longrightarrow>
        fix_missing_documentation (fix_missing_documentation c i) i
          \<noteq> fix_missing_documentation c i)"
proof -
  have 1: "section_of (description i) = None \<longrightarrow> fix_missing_section c i = c"
    by (simp add: fix_missing_section_def)
  have 2: "test_type_of (description i) = None \<longrightarrow> fix_missing_test_type c i = c"
    by (simp add: fix_missing_test_type_def)
  have 3: "\<not> contains c ''def '' \<longrightarrow>
        fix_missing_documentation c i = c \<and> fix_missing_error_handling c i = c"
    by (simp add: fix_missing_documentation_def fix_missing_error_handling_def)
  show ?thesis
    using 1 2 3 fix_missing_logging_idempotent fix_missing_section_again
      fix_missing_test_type_again fix_missing_documentation_again
    by blast
qed

theorem C5_transformers_reapplied_witness:
  "fix_missing_logging (fix_missing_logging ''import os'' overview_issue) overview_issue
     = fix_missing_logging ''import os'' overview_issue
   \<and> fix_missing_section (fix_missing_section ''import os'' overview_issue) overview_issue
     \<noteq> fix_missing_section ''import os'' overview_issue
   \<and> fix_missing_test_type ''import os'' overview_issue = ''import os''
   \<and> fix_missing_documentation ''import os'' overview_issue = ''import os''
   \<and> fix_missing_error_handling ''import os'' overview_issue = ''import os''
   \<and> fix_missing_section ''def f():'' unit_test_issue = ''def f():''
   \<and> fix_missing_test_type (fix_missing_test_type ''def f():'' unit_test_issue) unit_test_issue
     \<noteq> fix_missing_test_type ''def f():'' unit_test_issue
   \<and> fix_missing_documentation (fix_missing_documentation ''def f():'' unit_test_issue)
       unit_test_issue
     \<noteq> fix_missing_documentation ''def f():'' unit_test_issue"
proof -
  have a: "section_of (description overview_issue) \<noteq> None"
    "test_type_of (description overview_issue) = None"
    "\<not> contains ''import os'' ''def ''"
    by code_simp+
  have b: "section_of (description unit_test_issue) = None"
    "test_type_of (description unit_test_issue) \<noteq> None"
    "fix_missing_documentation ''def f():'' unit_test_issue \<noteq> ''def f():''"
    by code_simp+
  show ?thesis
    using C5_transformers_reapplied [of "''import os''" overview_issue]
      C5_transformers_reapplied [of "''def f():''" unit_test_issue] a b
    by blast
qed


end
